theory Spec2Isabelle
  imports Complex_Main
begin

section \<open>Values, exceptions and result rows\<close>

text \<open>
  The scripts drive the DWSIM engine through pythonnet. Python values that end up in a
  result row are ints, floats, bools, strings, \<open>None\<close> and float arrays. Floats are
  modelled as reals: rounding, infinities and NaN are outside the model. So is the
  console: what the scripts print is left out, and \<open>print\<close> is taken never to fail.
\<close>

datatype pyval =
    PNone
  | PBool bool
  | PInt int
  | PFloat real
  | PStr string
  | PArr "real list"

text \<open>
  An exception of class \<open>Exception\<close> (a Python one or a .NET one surfaced by pythonnet),
  carrying the text that \<open>str(e)\<close> gives.
\<close>

datatype exn = Exn string

fun str_exn :: "exn \<Rightarrow> string" where
  "str_exn (Exn m) = m"

text \<open>
  What \<open>GetPropertyValue\<close> hands back: a null, a Double, a Double array or a String.
\<close>

datatype propval = Null | Number real | Vector "real list" | Text string

fun of_prop :: "propval \<Rightarrow> pyval" where
  "of_prop Null = PNone"
| "of_prop (Number r) = PFloat r"
| "of_prop (Vector rs) = PArr rs"
| "of_prop (Text s) = PStr s"

text \<open>
  A result row is a Python dict with string keys. Insertion order matters for the export,
  so it is an association list without repeated keys; \<open>dict_set\<close> is \<open>d[k] = v\<close>.
\<close>

type_synonym row = "(string \<times> pyval) list"

fun dict_set :: "row \<Rightarrow> string \<Rightarrow> pyval \<Rightarrow> row" where
  "dict_set [] k v = [(k, v)]"
| "dict_set ((k', v') # d) k v = (if k' = k then (k, v) # d else (k', v') # dict_set d k v)"

definition dict_get :: "row \<Rightarrow> string \<Rightarrow> pyval option" where
  "dict_get d k = map_of d k"

definition keys :: "row \<Rightarrow> string list" where
  "keys d = map fst d"

section \<open>The engine as an external collaborator\<close>

datatype object_type = MaterialStream | EnergyStream | RCT_PFR | ShortcutColumn

record reaction_set =
  ID :: string
  Name :: string

text \<open>
  The sixteen arguments of \<open>CreateKineticReaction\<close>, in the order of the call.
\<close>

record kinetic_reaction =
  rx_name :: string
  rx_description :: string
  rx_stoich :: "(string \<times> real) list"
  rx_direct_orders :: "(string \<times> real) list"
  rx_reverse_orders :: "(string \<times> real) list"
  rx_base_compound :: string
  rx_phase :: string
  rx_basis :: string
  rx_amount_unit :: string
  rx_rate_unit :: string
  rx_Af :: real
  rx_Ef :: real
  rx_Ar :: real
  rx_Er :: real
  rx_expr_f :: string
  rx_expr_r :: string

text \<open>
  Every call the scripts make into the engine (and the two pythonnet steps that can fail
  inside a case: the late import of \<open>IMaterialStream\<close> and attribute assignment).
  Simulation objects are named by their tag.
\<close>

datatype call =
    Automation3
  | CreateFlowsheet
  | AddCompound string
  | AddObject object_type int int string
  | SetPropertyValue string string pyval
  | ConnectObjects string string int int
  | CreateKineticReaction kinetic_reaction
  | ReactionSets
  | AddReactionToSet string string bool int
  | CreateReactionSet string string
  | GetType string
  | GetProperty string string
  | SetValue string string pyval
  | SetAttr string string pyval
  | CalculateFlowsheet2
  | ImportIMaterialStream
  | ToString string
  | GetPropertyValue string string

text \<open>
  The engine is opaque and may fail on any call. Its answer to a call may depend on
  everything it was asked before, so each field takes the calls made so far (most recent
  first) next to the call's own arguments.
  \<^item> \<open>effect\<close>: calls made for their effect or for an object reference that the scripts
    never test for null; \<open>None\<close> means the call returned.
  \<^item> \<open>get_property\<close>: reflection's \<open>GetProperty\<close> on the type of an object;
    \<open>False\<close> is the null it returns for a name the type does not have.
  \<^item> \<open>create_kinetic_reaction\<close>: the new reaction's ID, or \<open>None\<close> for a null.
  \<^item> \<open>reaction_sets\<close>: the flowsheet's dictionary of reaction sets in enumeration
    order (key and value, a value may be null), or \<open>None\<close> for a null dictionary.
  \<^item> \<open>create_reaction_set\<close>: the new set, or \<open>None\<close> for a null.
  \<^item> \<open>calculate_flowsheet\<close>: the solver's list of error texts, or \<open>None\<close> for null.
  \<^item> \<open>get_property_value\<close>: the value of a named property of an object.
\<close>

record engine =
  effect :: "call list \<Rightarrow> call \<Rightarrow> exn option"
  get_property :: "call list \<Rightarrow> string \<Rightarrow> string \<Rightarrow> exn + bool"
  create_kinetic_reaction :: "call list \<Rightarrow> kinetic_reaction \<Rightarrow> exn + string option"
  reaction_sets :: "call list \<Rightarrow> exn + (string \<times> reaction_set option) list option"
  create_reaction_set :: "call list \<Rightarrow> string \<Rightarrow> string \<Rightarrow> exn + reaction_set option"
  calculate_flowsheet :: "call list \<Rightarrow> exn + string list option"
  get_property_value :: "call list \<Rightarrow> string \<Rightarrow> string \<Rightarrow> exn + propval"

section \<open>Actions: state passing with exceptions\<close>

text \<open>
  The state a run threads through: the log of engine calls (most recent first), the
  manager's \<open>results\<close> list, and the files written.
\<close>

record world =
  calls :: "call list"
  results :: "row list"
  files :: "string \<Rightarrow> string option"

type_synonym 'a action = "world \<Rightarrow> (exn + 'a) \<times> world"

definition returnA :: "'a \<Rightarrow> 'a action" where
  "returnA x = (\<lambda>w. (Inr x, w))"

definition bindA :: "'a action \<Rightarrow> ('a \<Rightarrow> 'b action) \<Rightarrow> 'b action" where
  "bindA m f = (\<lambda>w. case m w of (Inl e, w') \<Rightarrow> (Inl e, w') | (Inr x, w') \<Rightarrow> f x w')"

text \<open>\<open>try: m except Exception as e: h e\<close>. The state changes made before the raise stay.\<close>

definition catchA :: "'a action \<Rightarrow> (exn \<Rightarrow> 'a action) \<Rightarrow> 'a action" where
  "catchA m h = (\<lambda>w. case m w of (Inl e, w') \<Rightarrow> h e w' | (Inr x, w') \<Rightarrow> (Inr x, w'))"

definition liftE :: "exn + 'a \<Rightarrow> 'a action" where
  "liftE r = (\<lambda>w. (r, w))"

text \<open>One engine call: ask the engine, given the calls so far, and log the call.\<close>

definition invoke :: "call \<Rightarrow> (call list \<Rightarrow> exn + 'a) \<Rightarrow> 'a action" where
  "invoke c respond = (\<lambda>w. (respond (calls w), w\<lparr>calls := c # calls w\<rparr>))"

definition perform :: "engine \<Rightarrow> call \<Rightarrow> unit action" where
  "perform eng c =
     invoke c (\<lambda>h. case effect eng h c of Some e \<Rightarrow> Inl e | None \<Rightarrow> Inr ())"

section \<open>SimulationManager (run_screening.py)\<close>

text \<open>\<open>run_simulation\<close>, lines 146-151.\<close>

definition run_simulation :: "engine \<Rightarrow> (bool \<times> string list) action" where
  "run_simulation eng =
     bindA (invoke CalculateFlowsheet2 (calculate_flowsheet eng)) (\<lambda>err_list.
       case err_list of
         None \<Rightarrow> returnA (True, [])
       | Some errs \<Rightarrow> returnA (length errs = 0, errs))"

text \<open>
  The process environment: what the operating system, the user at the prompt, the CLR
  loader and the wall clock answer. \<open>clock n\<close> is the \<open>%H:%M:%S\<close> text read when
  \<open>n\<close> rows have been recorded.
\<close>

record environment =
  localappdata :: "string option"
  path_join :: "string \<Rightarrow> string \<Rightarrow> string"
  path_exists :: "string \<Rightarrow> bool"
  input_line :: "string option"
  load_assemblies :: "string \<Rightarrow> exn option"
  clock :: "nat \<Rightarrow> string"
  script_dir :: string
  write_error :: "string \<Rightarrow> exn option"

text \<open>\<open>create_simulation\<close>, lines 87-95.\<close>

definition create_simulation :: "engine \<Rightarrow> unit action" where
  "create_simulation eng = perform eng CreateFlowsheet"

text \<open>\<open>setup_compounds\<close>, lines 97-103: each add sits in its own bare \<open>except\<close>.\<close>

fun setup_compounds :: "engine \<Rightarrow> string list \<Rightarrow> unit action" where
  "setup_compounds eng [] = returnA ()"
| "setup_compounds eng (compound # compounds) =
     bindA (catchA (perform eng (AddCompound compound)) (\<lambda>e. returnA ()))
       (\<lambda>_. setup_compounds eng compounds)"

text \<open>\<open>add_material_stream\<close>, lines 105-116. The stream is returned as its tag.\<close>

definition add_material_stream ::
  "engine \<Rightarrow> string \<Rightarrow> int \<Rightarrow> int \<Rightarrow> pyval \<Rightarrow> pyval \<Rightarrow> pyval \<Rightarrow> pyval \<Rightarrow> string action" where
  "add_material_stream eng name x y temp_k pressure_pa mass_flow_kh compositions =
     bindA (perform eng (AddObject MaterialStream x y name)) (\<lambda>_.
     bindA (perform eng (SetPropertyValue name ''Temperature'' temp_k)) (\<lambda>_.
     bindA (perform eng (SetPropertyValue name ''Pressure'' pressure_pa)) (\<lambda>_.
     bindA (perform eng (SetPropertyValue name ''MassFlow'' mass_flow_kh)) (\<lambda>_.
     bindA (perform eng (SetPropertyValue name ''OverallMolarComposition'' compositions)) (\<lambda>_.
     returnA name)))))"

text \<open>\<open>add_pfr\<close>, lines 118-128.\<close>

definition add_pfr ::
  "engine \<Rightarrow> string \<Rightarrow> int \<Rightarrow> int \<Rightarrow> string \<Rightarrow> string \<Rightarrow> string \<Rightarrow> string action" where
  "add_pfr eng name x y inlet_stream outlet_stream energy_stream =
     bindA (perform eng (AddObject RCT_PFR x y name)) (\<lambda>_.
     bindA (perform eng (ConnectObjects inlet_stream name (- 1) (- 1))) (\<lambda>_.
     bindA (perform eng (ConnectObjects name outlet_stream (- 1) (- 1))) (\<lambda>_.
     bindA (perform eng (ConnectObjects energy_stream name (- 1) (- 1))) (\<lambda>_.
     returnA name))))"

text \<open>
  \<open>log_result\<close>, lines 153-157: tag the dict with the case type and the time, append it.
\<close>

definition log_result :: "environment \<Rightarrow> string \<Rightarrow> row \<Rightarrow> unit action" where
  "log_result env case_type logs = (\<lambda>w.
     (Inr (),
      w\<lparr>results := results w @
         [dict_set (dict_set logs ''CaseType'' (PStr case_type))
            ''Timestamp'' (PStr (clock env (length (results w))))]\<rparr>))"

text \<open>A \<open>for\<close> loop over a list: an exception leaving the body leaves the loop.\<close>

fun for_each :: "'a list \<Rightarrow> ('a \<Rightarrow> unit action) \<Rightarrow> unit action" where
  "for_each [] body = returnA ()"
| "for_each (x # xs) body = bindA (body x) (\<lambda>_. for_each xs body)"

section \<open>Part A: the PFR study (run_screening.py, run_pfr_study)\<close>

text \<open>Joining texts with a separator, as \<open>sep.join(items)\<close> does.\<close>

fun join_with :: "string \<Rightarrow> string list \<Rightarrow> string" where
  "join_with sep [] = []"
| "join_with sep [s] = s"
| "join_with sep (s # t # ss) = s @ sep @ join_with sep (t # ss)"

text \<open>
  \<open>str(errors)\<close> of the solver's error list (lines 356 and 423). It is only taken for
  a list the engine handed back, which is a .NET \<open>List(Of Exception)\<close>; pythonnet's
  \<open>str\<close> of a .NET object is its \<open>ToString()\<close>, and that of a generic list is the
  name of its type, whatever its items are.
\<close>

definition str_list :: "string list \<Rightarrow> string" where
  "str_list errors = ''System.Collections.Generic.List'' @ [CHR 0x60] @ ''1[System.Exception]''"

text \<open>Python's float division raises on a zero divisor.\<close>

definition py_truediv :: "real \<Rightarrow> real \<Rightarrow> exn + real" where
  "py_truediv a b = (if b = 0 then Inl (Exn ''float division by zero'') else Inr (a / b))"

text \<open>
  Line 343: \<open>conversion = (in_flow - out_flow_A) / in_flow if in_flow > 0 else 0\<close>.
  The \<open>else\<close> value is the int \<open>0\<close>.
\<close>

definition conversion :: "real \<Rightarrow> real \<Rightarrow> exn + pyval" where
  "conversion in_flow out_flow_A =
     (if in_flow > 0
      then (case py_truediv (in_flow - out_flow_A) in_flow of
              Inl e \<Rightarrow> Inl e | Inr q \<Rightarrow> Inr (PFloat q))
      else Inr (PInt 0))"

text \<open>The reaction handed to \<open>CreateKineticReaction\<close>, lines 196-228.\<close>

definition rxn_1 :: kinetic_reaction where
  "rxn_1 = \<lparr>
     rx_name = ''Rxn-1'',
     rx_description = ''A->B First Order'',
     rx_stoich = [(''Water'', - 1), (''Ethanol'', 1)],
     rx_direct_orders = [(''Water'', 1), (''Ethanol'', 0)],
     rx_reverse_orders = [(''Water'', 0), (''Ethanol'', 0)],
     rx_base_compound = ''Water'',
     rx_phase = ''Mixture'',
     rx_basis = ''Molar Concentration'',
     rx_amount_unit = ''mol'',
     rx_rate_unit = ''mol/[m3.s]'',
     rx_Af = 0.005, rx_Ef = 0, rx_Ar = 0, rx_Er = 0,
     rx_expr_f = [], rx_expr_r = []\<rparr>"

text \<open>
  Lines 241-243 and 249-250: the reaction joins the set when both references are non-null.
\<close>

definition add_reaction_to_set ::
  "engine \<Rightarrow> string option \<Rightarrow> reaction_set option \<Rightarrow> unit action" where
  "add_reaction_to_set eng rxn rs =
     (case (rxn, rs) of
        (Some rxn_id, Some s) \<Rightarrow> perform eng (AddReactionToSet rxn_id (ID s) True 0)
      | _ \<Rightarrow> returnA ())"

text \<open>
  Lines 231-255: take the first existing reaction set, or create one when the dictionary
  is null or empty. The result is the variable \<open>rs\<close>.
\<close>

definition choose_reaction_set :: "engine \<Rightarrow> string option \<Rightarrow> reaction_set option action" where
  "choose_reaction_set eng rxn =
     bindA (invoke ReactionSets (reaction_sets eng)) (\<lambda>rxn_sets.
       case rxn_sets of
         Some ((key, rs) # rest) \<Rightarrow>
           bindA (add_reaction_to_set eng rxn rs) (\<lambda>_. returnA rs)
       | _ \<Rightarrow>
           bindA (invoke (CreateReactionSet ''Set-1'' ''Default Set'')
                    (\<lambda>h. create_reaction_set eng h ''Set-1'' ''Default Set'')) (\<lambda>rs.
           bindA (add_reaction_to_set eng rxn rs) (\<lambda>_. returnA rs)))"

text \<open>
  Lines 262-275, the reaction-set binding of the screening script. With a non-null
  \<open>rs\<close>: look the property \<open>ReactionSetID\<close> up by reflection; when the type has it, write
  the set's ID through it, otherwise write the ID with \<open>SetPropertyValue\<close> under the name
  \<open>Reaction Set\<close>. Any exception is printed and dropped.
\<close>

definition assign_reaction_set :: "engine \<Rightarrow> string \<Rightarrow> reaction_set option \<Rightarrow> unit action" where
  "assign_reaction_set eng pfr rs =
     (case rs of
        None \<Rightarrow> returnA ()
      | Some s \<Rightarrow>
          catchA
            (bindA (invoke (GetProperty pfr ''ReactionSetID'')
                      (\<lambda>h. get_property eng h pfr ''ReactionSetID'')) (\<lambda>prop_rs_id.
               if prop_rs_id
               then perform eng (SetValue pfr ''ReactionSetID'' (PStr (ID s)))
               else perform eng (SetPropertyValue pfr ''Reaction Set'' (PStr (ID s)))))
            (\<lambda>e. returnA ()))"

text \<open>Lines 278-293: volume and operation mode by reflection, in one \<open>try\<close>.\<close>

definition configure_pfr :: "engine \<Rightarrow> string \<Rightarrow> real \<Rightarrow> unit action" where
  "configure_pfr eng pfr vol =
     catchA
       (bindA (invoke (GetProperty pfr ''Volume'') (\<lambda>h. get_property eng h pfr ''Volume''))
          (\<lambda>prop_vol.
        bindA (if prop_vol then perform eng (SetValue pfr ''Volume'' (PFloat vol))
               else returnA ()) (\<lambda>_.
        bindA (invoke (GetProperty pfr ''ReactorOperationMode'')
                 (\<lambda>h. get_property eng h pfr ''ReactorOperationMode'')) (\<lambda>prop_mode.
        if prop_mode then perform eng (SetValue pfr ''ReactorOperationMode'' (PInt 1))
        else returnA ()))))
       (\<lambda>ex. returnA ())"

text \<open>
  \<open>total_flow * comps[i]\<close> (lines 326-329) has a value only for a Double times an in-range
  item of a Double array; every other pairing raises in Python.
\<close>

fun flow_times :: "propval \<Rightarrow> propval \<Rightarrow> nat \<Rightarrow> exn + real" where
  "flow_times (Number f) (Vector cs) i =
     (if i < length cs then Inr (f * cs ! i) else Inl (Exn ''index out of range''))"
| "flow_times total_flow comps i = Inl (Exn ''unsupported operand type(s)'')"

text \<open>\<open>get_comp_flow\<close>, lines 310-331: any failure inside gives \<open>0.0\<close>.\<close>

definition get_comp_flow :: "engine \<Rightarrow> string \<Rightarrow> string \<Rightarrow> real action" where
  "get_comp_flow eng stream_obj comp_name =
     catchA
       (bindA (perform eng (ToString stream_obj)) (\<lambda>_.
        bindA (invoke (GetPropertyValue stream_obj ''Molar Flow'')
                 (\<lambda>h. get_property_value eng h stream_obj ''Molar Flow'')) (\<lambda>total_flow.
        bindA (invoke (GetPropertyValue stream_obj ''OverallMolarComposition'')
                 (\<lambda>h. get_property_value eng h stream_obj ''OverallMolarComposition''))
          (\<lambda>comps.
        liftE (flow_times total_flow comps (if comp_name = ''Water'' then 0 else 1))))))
       (\<lambda>e. returnA 0)"

text \<open>\<open>get_temp\<close> and \<open>get_duty\<close>, lines 333-337: plain reads.\<close>

definition get_temp :: "engine \<Rightarrow> string \<Rightarrow> propval action" where
  "get_temp eng stream_obj =
     invoke (GetPropertyValue stream_obj ''Temperature'')
       (\<lambda>h. get_property_value eng h stream_obj ''Temperature'')"

definition get_duty :: "engine \<Rightarrow> string \<Rightarrow> propval action" where
  "get_duty eng energy_obj =
     invoke (GetPropertyValue energy_obj ''Energy Flow'')
       (\<lambda>h. get_property_value eng h energy_obj ''Energy Flow'')"

text \<open>
  The body of the \<open>try\<close> of one PFR case in three consecutive blocks. First lines 176-261:
  fresh flowsheet, compounds, streams, reaction, reaction set, reactor and its type.
  The block hands on the feed, product, energy and reactor tags and \<open>rs\<close>.
\<close>

definition pfr_build ::
  "engine \<Rightarrow> int \<Rightarrow> (string \<times> string \<times> string \<times> string \<times> reaction_set option) action" where
  "pfr_build eng temp =
     bindA (create_simulation eng) (\<lambda>_.
     bindA (setup_compounds eng [''Water'', ''Ethanol'']) (\<lambda>_.
     bindA (add_material_stream eng ''Feed'' 50 50 (PInt temp) (PInt 101325) (PInt 3600)
              (PArr [1, 0])) (\<lambda>feed.
     bindA (perform eng (AddObject MaterialStream 200 50 ''Product'')) (\<lambda>_.
     bindA (perform eng (AddObject EnergyStream 125 100 ''Heat'')) (\<lambda>_.
     bindA (invoke (CreateKineticReaction rxn_1)
              (\<lambda>h. create_kinetic_reaction eng h rxn_1)) (\<lambda>rxn.
     bindA (choose_reaction_set eng rxn) (\<lambda>rs.
     bindA (add_pfr eng ''PFR-1'' 125 50 feed ''Product'' ''Heat'') (\<lambda>pfr.
     bindA (perform eng (GetType pfr)) (\<lambda>_.
     returnA (feed, ''Product'', ''Heat'', pfr, rs))))))))))"

text \<open>Lines 262-296: bind the reaction set, configure the reactor, solve.\<close>

definition pfr_bind_and_solve ::
  "engine \<Rightarrow> string \<Rightarrow> reaction_set option \<Rightarrow> real \<Rightarrow> (bool \<times> string list) action" where
  "pfr_bind_and_solve eng pfr rs vol =
     bindA (assign_reaction_set eng pfr rs) (\<lambda>_.
     bindA (configure_pfr eng pfr vol) (\<lambda>_.
     run_simulation eng))"

text \<open>Lines 298-357: read the metrics back and build the dict handed to \<open>log_result\<close>.\<close>

definition pfr_extract ::
  "engine \<Rightarrow> int \<Rightarrow> real \<Rightarrow> string \<Rightarrow> string \<Rightarrow> string \<Rightarrow> bool \<Rightarrow> string list \<Rightarrow> row action" where
  "pfr_extract eng temp vol feed prd energy success errors =
     bindA (perform eng ImportIMaterialStream) (\<lambda>_.
     bindA (get_comp_flow eng feed ''Water'') (\<lambda>in_flow.
     bindA (get_comp_flow eng prd ''Water'') (\<lambda>out_flow_A.
     bindA (get_comp_flow eng prd ''Ethanol'') (\<lambda>out_flow_B.
     bindA (liftE (conversion in_flow out_flow_A)) (\<lambda>conv.
     bindA (get_temp eng prd) (\<lambda>outlet_temp.
     bindA (get_duty eng energy) (\<lambda>duty.
     returnA
       [(''Temperature_K'', PInt temp),
        (''Volume_m3'', PFloat vol),
        (''Conversion'', conv),
        (''OutletFlow_B_mol_s'', PFloat out_flow_B),
        (''OutletTemperature_K'', of_prop outlet_temp),
        (''HeatDuty_kW'', of_prop duty),
        (''Success'', PBool success),
        (''Error'', PStr (if \<not> success then str_list errors else []))])))))))"

definition pfr_try :: "engine \<Rightarrow> int \<Rightarrow> real \<Rightarrow> row action" where
  "pfr_try eng temp vol =
     bindA (pfr_build eng temp) (\<lambda>(feed, prd, energy, pfr, rs).
     bindA (pfr_bind_and_solve eng pfr rs vol) (\<lambda>(success, errors).
     pfr_extract eng temp vol feed prd energy success errors))"

text \<open>Lines 175-368: one case, the \<open>try\<close> with its \<open>except Exception\<close>.\<close>

definition pfr_case :: "environment \<Rightarrow> engine \<Rightarrow> int \<Rightarrow> real \<Rightarrow> unit action" where
  "pfr_case env eng temp vol =
     catchA
       (bindA (pfr_try eng temp vol) (\<lambda>logs. log_result env ''PFR_Sweep'' logs))
       (\<lambda>e. log_result env ''PFR_Sweep''
          [(''Temperature_K'', PInt temp),
           (''Volume_m3'', PFloat vol),
           (''Success'', PBool False),
           (''Error'', PStr (str_exn e))])"

text \<open>The two nested loops of lines 173-174, over any two axes.\<close>

definition pfr_sweep :: "environment \<Rightarrow> engine \<Rightarrow> int list \<Rightarrow> real list \<Rightarrow> unit action" where
  "pfr_sweep env eng temperatures volumes =
     for_each temperatures (\<lambda>temp. for_each volumes (\<lambda>vol. pfr_case env eng temp vol))"

definition run_pfr_study :: "environment \<Rightarrow> engine \<Rightarrow> unit action" where
  "run_pfr_study env eng = pfr_sweep env eng [300, 325, 350] [1, 2, 3]"

section \<open>Part B: the distillation study (run_screening.py, run_distillation_study)\<close>

text \<open>Lines 384-403: the body of the \<open>try\<close> up to and including the SOLVE step.\<close>

definition dist_until_solve :: "engine \<Rightarrow> real \<Rightarrow> int \<Rightarrow> (bool \<times> string list) action" where
  "dist_until_solve eng rr stages =
     bindA (create_simulation eng) (\<lambda>_.
     bindA (setup_compounds eng [''Ethanol'', ''Water'']) (\<lambda>_.
     bindA (add_material_stream eng ''Feed'' 50 50 (PInt 350) (PInt 101325) (PInt 5000)
              (PArr [0.5, 0.5])) (\<lambda>feed.
     bindA (perform eng (AddObject ShortcutColumn 200 50 ''Distillation'')) (\<lambda>_.
     bindA (perform eng (SetPropertyValue ''Distillation'' ''Reflux Ratio'' (PFloat rr))) (\<lambda>_.
     bindA (perform eng (SetPropertyValue ''Distillation'' ''Number of Stages'' (PInt stages)))
       (\<lambda>_.
     bindA (perform eng (SetPropertyValue ''Distillation'' ''Condenser Pressure''
              (PInt 101325))) (\<lambda>_.
     bindA (perform eng (SetPropertyValue ''Distillation'' ''Reboiler Pressure''
              (PInt 101325))) (\<lambda>_.
     bindA (perform eng (SetPropertyValue ''Distillation'' ''Light Key Mole Fraction''
              (PFloat 0.95))) (\<lambda>_.
     run_simulation eng)))))))))"

text \<open>
  Lines 405-424: read the two duties and build the dict handed to \<open>log_result\<close>. The
  purity is the constant of line 414.
\<close>

definition dist_extract :: "engine \<Rightarrow> real \<Rightarrow> int \<Rightarrow> bool \<Rightarrow> string list \<Rightarrow> row action" where
  "dist_extract eng rr stages success errors =
     bindA (invoke (GetPropertyValue ''Distillation'' ''Condenser Duty'')
              (\<lambda>h. get_property_value eng h ''Distillation'' ''Condenser Duty'')) (\<lambda>cond_duty.
     bindA (invoke (GetPropertyValue ''Distillation'' ''Reboiler Duty'')
              (\<lambda>h. get_property_value eng h ''Distillation'' ''Reboiler Duty'')) (\<lambda>reb_duty.
     returnA
       [(''RefluxRatio'', PFloat rr),
        (''Stages'', PInt stages),
        (''DistillatePurity'', PFloat 0.95),
        (''CondenserDuty_kW'', of_prop cond_duty),
        (''ReboilerDuty_kW'', of_prop reb_duty),
        (''Success'', PBool success),
        (''Error'', PStr (if \<not> success then str_list errors else []))]))"

definition dist_try :: "engine \<Rightarrow> real \<Rightarrow> int \<Rightarrow> row action" where
  "dist_try eng rr stages =
     bindA (dist_until_solve eng rr stages) (\<lambda>(success, errors).
     dist_extract eng rr stages success errors)"

text \<open>Lines 383-435: one case, the \<open>try\<close> with its \<open>except Exception\<close>.\<close>

definition dist_case :: "environment \<Rightarrow> engine \<Rightarrow> real \<Rightarrow> int \<Rightarrow> unit action" where
  "dist_case env eng rr stages =
     catchA
       (bindA (dist_try eng rr stages) (\<lambda>logs. log_result env ''Distillation_Sweep'' logs))
       (\<lambda>e. log_result env ''Distillation_Sweep''
          [(''RefluxRatio'', PFloat rr),
           (''Stages'', PInt stages),
           (''Success'', PBool False),
           (''Error'', PStr (str_exn e))])"

definition dist_sweep :: "environment \<Rightarrow> engine \<Rightarrow> real list \<Rightarrow> int list \<Rightarrow> unit action" where
  "dist_sweep env eng reflux_ratios stages_list =
     for_each reflux_ratios (\<lambda>rr. for_each stages_list (\<lambda>stages. dist_case env eng rr stages))"

definition run_distillation_study :: "environment \<Rightarrow> engine \<Rightarrow> unit action" where
  "run_distillation_study env eng = dist_sweep env eng [1.5, 2, 3] [10, 15, 20]"

section \<open>Export and the main program (run_screening.py, lines 441-459)\<close>

text \<open>
  \<open>pd.DataFrame(mgr.results)\<close> on a list of dicts: the columns are the keys of the dicts in
  the order in which they are first seen, and a cell is missing where a dict lacks the key.
\<close>

definition add_key :: "string list \<Rightarrow> string \<Rightarrow> string list" where
  "add_key cols k = (if k \<in> set cols then cols else cols @ [k])"

definition columns_of :: "row list \<Rightarrow> string list" where
  "columns_of rows = fold (\<lambda>r cols. fold (\<lambda>k cs. add_key cs k) (keys r) cols) rows []"

record data_frame =
  columns :: "string list"
  cells :: "pyval option list list"

definition DataFrame :: "row list \<Rightarrow> data_frame" where
  "DataFrame rows =
     \<lparr>columns = columns_of rows,
      cells = map (\<lambda>r. map (dict_get r) (columns_of rows)) rows\<rparr>"

text \<open>
  \<open>df.to_csv(path, index=False)\<close>: a header line with the column names, then a line for
  each row, fields separated by commas, a missing cell written as the empty field. How
  pandas prints a value that is there (which depends on the type it inferred for the
  whole column), how it quotes a field and which line terminator it uses are parameters.
\<close>

record pandas =
  cell_text :: "pyval option list \<Rightarrow> pyval \<Rightarrow> string"
  name_text :: "string \<Rightarrow> string"
  lineterminator :: string

definition csv_line :: "pandas \<Rightarrow> string list \<Rightarrow> string" where
  "csv_line pd items = join_with '','' items @ lineterminator pd"

definition cell_field :: "pandas \<Rightarrow> data_frame \<Rightarrow> nat \<Rightarrow> nat \<Rightarrow> string" where
  "cell_field pd df i j =
     (case cells df ! i ! j of
        None \<Rightarrow> []
      | Some v \<Rightarrow> cell_text pd (map (\<lambda>r. r ! j) (cells df)) v)"

definition data_lines :: "pandas \<Rightarrow> data_frame \<Rightarrow> string list" where
  "data_lines pd df =
     map (\<lambda>i. csv_line pd (map (cell_field pd df i) [0..<length (columns df)]))
       [0..<length (cells df)]"

definition to_csv :: "pandas \<Rightarrow> data_frame \<Rightarrow> string" where
  "to_csv pd df = csv_line pd (map (name_text pd) (columns df)) @ concat (data_lines pd df)"

text \<open>Lines 456-458: the file is written once, replacing what was there.\<close>

definition export_results :: "environment \<Rightarrow> pandas \<Rightarrow> unit action" where
  "export_results env pd = (\<lambda>w.
     let output_path = path_join env (script_dir env) ''results.csv'' in
     case write_error env output_path of
       Some e \<Rightarrow> (Inl e, w)
     | None \<Rightarrow>
         (Inr (), w\<lparr>files := (files w)(output_path \<mapsto> to_csv pd (DataFrame (results w)))\<rparr>))"



section \<open>Start-up (run_screening.py, lines 14-75)\<close>











definition initial_world :: world where
  "initial_world = \<lparr>calls = [], results = [], files = Map.empty\<rparr>"


section \<open>The reaction-set binding of the debug script (debug_pfr.py, lines 159-205)\<close>

text \<open>
  Lines 165-168: the position of the target set among the flowsheet's reaction sets. The
  loop has no \<open>break\<close>, so the last set of that name counts; reading \<open>Name\<close> of a null
  entry raises.
\<close>

fun find_valid_index ::
  "string \<Rightarrow> (string \<times> reaction_set option) list \<Rightarrow> int \<Rightarrow> int \<Rightarrow> exn + int" where
  "find_valid_index target_set_name [] idx valid_index = Inr valid_index"
| "find_valid_index target_set_name ((key, None) # kvps) idx valid_index =
     Inl (Exn ''NoneType object has no attribute Name'')"
| "find_valid_index target_set_name ((key, Some s) # kvps) idx valid_index =
     find_valid_index target_set_name kvps (idx + 1)
       (if Name s = target_set_name then idx else valid_index)"

text \<open>
  Methods 1 and 2 (lines 175-191) are the same block for two property names: look the
  property up by reflection and, if the type has it, write the index through it. The
  value is the flag \<open>assigned\<close>.
\<close>

definition reflect_assign :: "engine \<Rightarrow> string \<Rightarrow> string \<Rightarrow> int \<Rightarrow> bool action" where
  "reflect_assign eng pfr name valid_index =
     catchA
       (bindA (invoke (GetProperty pfr name) (\<lambda>h. get_property eng h pfr name)) (\<lambda>prop.
          if prop
          then bindA (perform eng (SetValue pfr name (PInt valid_index))) (\<lambda>_. returnA True)
          else returnA False))
       (\<lambda>e. returnA False)"

text \<open>Method 3 (lines 195-199): assignment to the Python attribute \<open>ReactionSet\<close>.\<close>

definition attribute_assign :: "engine \<Rightarrow> string \<Rightarrow> int \<Rightarrow> bool action" where
  "attribute_assign eng pfr valid_index =
     catchA
       (bindA (perform eng (SetAttr pfr ''ReactionSet'' (PInt valid_index)))
          (\<lambda>_. returnA True))
       (\<lambda>e. returnA False)"

text \<open>Lines 170-205, for a \<open>valid_index\<close> already computed.\<close>

definition debug_bind :: "engine \<Rightarrow> string \<Rightarrow> int \<Rightarrow> bool action" where
  "debug_bind eng pfr valid_index =
     (if valid_index \<ge> 0
      then
        bindA (reflect_assign eng pfr ''Reaction Set'' valid_index) (\<lambda>assigned1.
        bindA (if \<not> assigned1 then reflect_assign eng pfr ''ReactionSet'' valid_index
               else returnA assigned1) (\<lambda>assigned2.
        if \<not> assigned2 then attribute_assign eng pfr valid_index else returnA assigned2))
      else returnA False)"

text \<open>
  Lines 159-205: the whole step. The value is \<open>assigned\<close>, and \<open>False\<close> when the set
  index was not found.
\<close>

definition debug_assign_reaction_set :: "engine \<Rightarrow> string \<Rightarrow> string \<Rightarrow> bool action" where
  "debug_assign_reaction_set eng pfr target_set_name =
     bindA (invoke ReactionSets (reaction_sets eng)) (\<lambda>rxn_sets.
       case rxn_sets of
         None \<Rightarrow> liftE (Inl (Exn ''NoneType object is not iterable''))
       | Some kvps \<Rightarrow>
           bindA (liftE (find_valid_index target_set_name kvps 0 (- 1))) (\<lambda>valid_index.
           debug_bind eng pfr valid_index))"

section \<open>Notions used to state the properties\<close>

text \<open>An action that leaves the recorded rows as they are.\<close>

definition keeps :: "'a action \<Rightarrow> bool" where
  "keeps m \<longleftrightarrow> (\<forall>w. results (snd (m w)) = results w)"

text \<open>A PFR case run up to and including its SOLVE step (lines 176-296).\<close>

definition pfr_until_solve :: "engine \<Rightarrow> int \<Rightarrow> real \<Rightarrow> (bool \<times> string list) action" where
  "pfr_until_solve eng temp vol =
     bindA (pfr_build eng temp) (\<lambda>(feed, prd, energy, pfr, rs).
     pfr_bind_and_solve eng pfr rs vol)"

text \<open>The cases of the two studies, and what it means for a row to carry a case's tags.\<close>

datatype case_params = PFR_params int real | Distillation_params real int

fun tagged_row :: "case_params \<Rightarrow> row \<Rightarrow> bool" where
  "tagged_row (PFR_params temp vol) r \<longleftrightarrow>
     dict_get r ''CaseType'' = Some (PStr ''PFR_Sweep'') \<and>
     dict_get r ''Temperature_K'' = Some (PInt temp) \<and>
     dict_get r ''Volume_m3'' = Some (PFloat vol)"
| "tagged_row (Distillation_params rr stages) r \<longleftrightarrow>
     dict_get r ''CaseType'' = Some (PStr ''Distillation_Sweep'') \<and>
     dict_get r ''RefluxRatio'' = Some (PFloat rr) \<and>
     dict_get r ''Stages'' = Some (PInt stages)"

text \<open>The elements of a list in the order of their first occurrence.\<close>

definition first_seen :: "'a list \<Rightarrow> 'a list" where
  "first_seen xs = rev (remdups (rev xs))"




text \<open>
  One attempt to bind through a reflected property, made when the calls \<open>h\<close> have gone
  before: it works when the lookup finds the property and the write through it returns;
  the calls it makes (most recent first) are the lookup, and the write if the property was
  found.
\<close>

definition reflect_works :: "engine \<Rightarrow> call list \<Rightarrow> string \<Rightarrow> string \<Rightarrow> pyval \<Rightarrow> bool" where
  "reflect_works eng h obj name v \<longleftrightarrow>
     get_property eng h obj name = Inr True \<and>
     effect eng (GetProperty obj name # h) (SetValue obj name v) = None"

definition reflect_calls :: "engine \<Rightarrow> call list \<Rightarrow> string \<Rightarrow> string \<Rightarrow> pyval \<Rightarrow> call list" where
  "reflect_calls eng h obj name v =
     (if get_property eng h obj name = Inr True
      then [SetValue obj name v, GetProperty obj name]
      else [GetProperty obj name])"

section \<open>Concrete engines and environments\<close>

text \<open>An engine on which every call works and the reactor converts 60% of the feed.\<close>

definition ok_engine :: engine where
  "ok_engine = \<lparr>
     effect = (\<lambda>h c. None),
     get_property = (\<lambda>h obj name. Inr (name = ''ReactionSetID'' \<or> name = ''Volume'')),
     create_kinetic_reaction = (\<lambda>h r. Inr (Some ''rxn-1'')),
     reaction_sets =
       (\<lambda>h. Inr (Some [(''set-0'', Some \<lparr>ID = ''set-0'', Name = ''Default Set''\<rparr>)])),
     create_reaction_set = (\<lambda>h n d. Inr (Some \<lparr>ID = n, Name = d\<rparr>)),
     calculate_flowsheet = (\<lambda>h. Inr None),
     get_property_value = (\<lambda>h obj name. Inr
        (if name = ''Molar Flow'' then Number 100
         else if name = ''OverallMolarComposition''
           then (if obj = ''Feed'' then Vector [1, 0] else Vector [0.4, 0.6])
         else Number 350))\<rparr>"

text \<open>The solver hands back one error.\<close>

definition solver_reports_error :: engine where
  "solver_reports_error =
     ok_engine\<lparr>calculate_flowsheet := (\<lambda>h. Inr (Some [''did not converge'']))\<rparr>"



text \<open>Reading a temperature raises; every other call works.\<close>

definition temperature_unreadable :: engine where
  "temperature_unreadable =
     ok_engine\<lparr>get_property_value :=
       (\<lambda>h obj name. if name = ''Temperature'' then Inl (Exn ''Property not found.'')
                     else get_property_value ok_engine h obj name)\<rparr>"

text \<open>Reading a column duty raises; every other call works.\<close>

definition duty_unreadable :: engine where
  "duty_unreadable =
     ok_engine\<lparr>get_property_value :=
       (\<lambda>h obj name. if name = ''Condenser Duty'' then Inl (Exn ''Property not found.'')
                     else get_property_value ok_engine h obj name)\<rparr>"

text \<open>The automation object can be made; every call after that raises.\<close>

definition hostile_engine :: engine where
  "hostile_engine = \<lparr>
     effect = (\<lambda>h c. if c = Automation3 then None else Some (Exn ''engine error'')),
     get_property = (\<lambda>h obj name. Inl (Exn ''engine error'')),
     create_kinetic_reaction = (\<lambda>h r. Inl (Exn ''engine error'')),
     reaction_sets = (\<lambda>h. Inl (Exn ''engine error'')),
     create_reaction_set = (\<lambda>h n d. Inl (Exn ''engine error'')),
     calculate_flowsheet = (\<lambda>h. Inl (Exn ''engine error'')),
     get_property_value = (\<lambda>h obj name. Inl (Exn ''engine error''))\<rparr>"



text \<open>
  A reactor whose type has the properties \<open>ReactionSet\<close> and \<open>ReactionSetID\<close> and not
  \<open>Reaction Set\<close>: it supports strategies 2 and 3.
\<close>

definition unit_2_3 :: engine where
  "unit_2_3 =
     ok_engine\<lparr>get_property :=
       (\<lambda>h obj name. Inr (name = ''ReactionSet'' \<or> name = ''ReactionSetID''))\<rparr>"

text \<open>A reactor whose type has the property \<open>Reaction Set\<close> only.\<close>

definition unit_1 :: engine where
  "unit_1 = ok_engine\<lparr>get_property := (\<lambda>h obj name. Inr (name = ''Reaction Set''))\<rparr>"

text \<open>
  A reactor whose type has \<open>Reaction Set\<close> and \<open>ReactionSet\<close>, where writing through
  \<open>Reaction Set\<close> raises.
\<close>

definition unit_1_stuck :: engine where
  "unit_1_stuck =
     ok_engine\<lparr>
       get_property := (\<lambda>h obj name. Inr (name = ''Reaction Set'' \<or> name = ''ReactionSet'')),
       effect :=
         (\<lambda>h c. if c = SetValue ''PFR-1'' ''Reaction Set'' (PInt 0)
                then Some (Exn ''Object does not match target type.'') else None)\<rparr>"

text \<open>A reactor on which the lookup of \<open>Reaction Set\<close> itself raises.\<close>

definition unit_lookup_raises :: engine where
  "unit_lookup_raises =
     ok_engine\<lparr>get_property :=
       (\<lambda>h obj name. if name = ''Reaction Set'' then Inl (Exn ''Ambiguous match found.'')
                     else Inr (name = ''ReactionSet''))\<rparr>"

text \<open>A reactor whose type has none of the properties; attribute assignment works.\<close>

definition unit_bare :: engine where
  "unit_bare = ok_engine\<lparr>get_property := (\<lambda>h obj name. Inr False)\<rparr>"

text \<open>The same reactor when attribute assignment raises as well.\<close>

definition unit_closed :: engine where
  "unit_closed =
     unit_bare\<lparr>effect :=
       (\<lambda>h c. if c = SetAttr ''PFR-1'' ''ReactionSet'' (PInt 0)
              then Some (Exn ''attribute is read-only'') else None)\<rparr>"

text \<open>An installation found in the first candidate directory, and a working disk.\<close>

definition ok_env :: environment where
  "ok_env = \<lparr>
     localappdata = Some ''L'',
     path_join = (\<lambda>a b. a @ [CHR 0x5C] @ b),
     path_exists = (\<lambda>p. True),
     input_line = None,
     load_assemblies = (\<lambda>p. None),
     clock = (\<lambda>n. ''12:00:00''),
     script_dir = ''S'',
     write_error = (\<lambda>p. None)\<rparr>"



text \<open>A small stand-in for pandas' formatting.\<close>

definition plain_pandas :: pandas where
  "plain_pandas = \<lparr>
     cell_text = (\<lambda>col v. case v of
        PStr s \<Rightarrow> s | PBool b \<Rightarrow> (if b then ''True'' else ''False'') | _ \<Rightarrow> ''#''),
     name_text = (\<lambda>n. n),
     lineterminator = [CHR 0x0A]\<rparr>"

section \<open>Lemmas\<close>

lemma bindA_returnA: "bindA (returnA x) f = f x"
  by (rule ext) (simp add: bindA_def returnA_def)

lemma bindA_assoc: "bindA (bindA m f) g = bindA m (\<lambda>x. bindA (f x) g)"
  by (rule ext) (simp add: bindA_def split: prod.splits sum.splits)

lemma bindA_Inr_iff:
  "bindA m f w = (Inr y, w') \<longleftrightarrow> (\<exists>x w1. m w = (Inr x, w1) \<and> f x w1 = (Inr y, w'))"
  by (auto simp: bindA_def split: prod.splits sum.splits)

lemma keeps_returnA: "keeps (returnA x)"
  by (simp add: keeps_def returnA_def)

lemma keeps_liftE: "keeps (liftE r)"
  by (simp add: keeps_def liftE_def)

lemma keeps_invoke: "keeps (invoke c respond)"
  by (simp add: keeps_def invoke_def)

lemma keeps_perform: "keeps (perform eng c)"
  by (simp add: perform_def keeps_invoke)

lemma keeps_bindA: "keeps m \<Longrightarrow> (\<And>x. keeps (f x)) \<Longrightarrow> keeps (bindA m f)"
  unfolding keeps_def bindA_def
  by (auto split: prod.splits sum.splits) (metis snd_conv)+

lemma keeps_catchA: "keeps m \<Longrightarrow> (\<And>e. keeps (h e)) \<Longrightarrow> keeps (catchA m h)"
  unfolding keeps_def catchA_def
  by (auto split: prod.splits sum.splits) (metis snd_conv)+

lemma keeps_if: "keeps m \<Longrightarrow> keeps n \<Longrightarrow> keeps (if b then m else n)"
  by simp

lemmas keeps_intros = keeps_returnA keeps_liftE keeps_invoke keeps_perform keeps_bindA
  keeps_catchA keeps_if

lemma keeps_setup_compounds: "keeps (setup_compounds eng cs)"
  by (induction cs) (auto intro!: keeps_intros)

lemma keeps_run_simulation: "keeps (run_simulation eng)"
  unfolding run_simulation_def
  by (auto intro!: keeps_intros split: option.splits)

lemma keeps_pfr_build: "keeps (pfr_build eng temp)"
  unfolding pfr_build_def create_simulation_def add_material_stream_def add_pfr_def
    choose_reaction_set_def add_reaction_to_set_def
  by (auto intro!: keeps_intros keeps_setup_compounds split: option.splits list.splits prod.splits)

lemma keeps_pfr_bind_and_solve: "keeps (pfr_bind_and_solve eng pfr rs vol)"
  unfolding pfr_bind_and_solve_def assign_reaction_set_def configure_pfr_def
  by (auto intro!: keeps_intros keeps_run_simulation split: option.splits)

lemma keeps_pfr_extract: "keeps (pfr_extract eng temp vol feed prd energy success errors)"
  unfolding pfr_extract_def get_comp_flow_def get_temp_def get_duty_def
  by (auto intro!: keeps_intros)

lemma keeps_pfr_try: "keeps (pfr_try eng temp vol)"
  unfolding pfr_try_def
  by (auto intro!: keeps_intros keeps_pfr_build keeps_pfr_bind_and_solve keeps_pfr_extract)

lemma keeps_dist_until_solve: "keeps (dist_until_solve eng rr stages)"
  unfolding dist_until_solve_def create_simulation_def add_material_stream_def
  by (auto intro!: keeps_intros keeps_setup_compounds keeps_run_simulation)

lemma keeps_dist_extract: "keeps (dist_extract eng rr stages success errors)"
  unfolding dist_extract_def
  by (auto intro!: keeps_intros)

lemma keeps_dist_try: "keeps (dist_try eng rr stages)"
  unfolding dist_try_def
  by (auto intro!: keeps_intros keeps_dist_until_solve keeps_dist_extract)

lemma dict_get_dict_set:
  "dict_get (dict_set d k v) k' = (if k' = k then Some v else dict_get d k')"
  by (induction d) (auto simp: dict_get_def)

text \<open>
  Both case functions have one shape: the \<open>try\<close> body computes a dict without touching
  the results and logs it, the handler logs a dict made from the exception.
\<close>

lemma logged_case:
  assumes "keeps body"
  shows "catchA (bindA body (log_result env tag)) (\<lambda>e. log_result env tag (f e)) w =
     (Inr (), (snd (body w))\<lparr>results := results w @
        [dict_set (dict_set (case fst (body w) of Inl e \<Rightarrow> f e | Inr logs \<Rightarrow> logs)
           ''CaseType'' (PStr tag)) ''Timestamp'' (PStr (clock env (length (results w))))]\<rparr>)"
proof -
  obtain r w1 where b: "body w = (r, w1)"
    by (cases "body w")
  from assms b have "results w1 = results w"
    by (metis keeps_def snd_conv)
  with b show ?thesis
    by (cases r) (simp_all add: catchA_def bindA_def log_result_def)
qed







lemma pfr_extract_logs:
  assumes "pfr_extract eng temp vol feed prd energy success errors w = (Inr logs, w')"
  shows "dict_get logs ''Temperature_K'' = Some (PInt temp)"
    and "dict_get logs ''Volume_m3'' = Some (PFloat vol)"
    and "dict_get logs ''Success'' = Some (PBool success)"
    and "dict_get logs ''Error'' = Some (PStr (if success then [] else str_list errors))"
  using assms
  by (auto simp: pfr_extract_def bindA_Inr_iff returnA_def dict_get_def)

lemma dist_extract_logs:
  assumes "dist_extract eng rr stages success errors w = (Inr logs, w')"
  shows "dict_get logs ''RefluxRatio'' = Some (PFloat rr)"
    and "dict_get logs ''Stages'' = Some (PInt stages)"
    and "dict_get logs ''DistillatePurity'' = Some (PFloat 0.95)"
    and "dict_get logs ''Success'' = Some (PBool success)"
    and "dict_get logs ''Error'' = Some (PStr (if success then [] else str_list errors))"
  using assms
  by (auto simp: dist_extract_def bindA_Inr_iff returnA_def dict_get_def)

text \<open>A \<open>try\<close> body that returns has passed its SOLVE step and its extraction.\<close>

lemma pfr_try_returns:
  assumes "pfr_try eng temp vol w = (Inr logs, w')"
  shows "\<exists>feed prd energy success errors w2.
           pfr_until_solve eng temp vol w = (Inr (success, errors), w2) \<and>
           pfr_extract eng temp vol feed prd energy success errors w2 = (Inr logs, w')"
  using assms
  unfolding pfr_try_def pfr_until_solve_def
  by (fastforce simp: bindA_Inr_iff split: prod.splits)

lemma dist_try_returns:
  assumes "dist_try eng rr stages w = (Inr logs, w')"
  shows "\<exists>success errors w2.
           dist_until_solve eng rr stages w = (Inr (success, errors), w2) \<and>
           dist_extract eng rr stages success errors w2 = (Inr logs, w')"
  using assms
  unfolding dist_try_def
  by (fastforce simp: bindA_Inr_iff split: prod.splits)

lemmas run_defs = pfr_case_def pfr_try_def pfr_build_def pfr_bind_and_solve_def pfr_extract_def
  dist_case_def dist_try_def dist_until_solve_def dist_extract_def
  create_simulation_def add_material_stream_def add_pfr_def choose_reaction_set_def
  add_reaction_to_set_def assign_reaction_set_def configure_pfr_def get_comp_flow_def
  get_temp_def get_duty_def run_simulation_def log_result_def conversion_def py_truediv_def
  bindA_def catchA_def returnA_def liftE_def invoke_def perform_def initial_world_def


lemma for_each_rows:
  assumes "\<And>c w. fst (body c w) = Inr () \<and>
             (\<exists>r. results (snd (body c w)) = results w @ [r] \<and> P c r)"
  shows "fst (for_each cs body w) = Inr () \<and>
         (\<exists>rs. results (snd (for_each cs body w)) = results w @ rs \<and> list_all2 P cs rs)"
proof (induction cs arbitrary: w)
  case Nil
  show ?case by (simp add: returnA_def)
next
  case (Cons c cs)
  obtain w1 where b: "body c w = (Inr (), w1)"
    using assms [of c w] by (cases "body c w") simp
  with assms [of c w] obtain r where r: "results w1 = results w @ [r]" "P c r"
    by auto
  from Cons [of w1] obtain rs where
    rs: "fst (for_each cs body w1) = Inr ()"
        "results (snd (for_each cs body w1)) = results w1 @ rs" "list_all2 P cs rs"
    by blast
  have "results (snd (for_each (c # cs) body w)) = results w @ (r # rs)"
    using b r rs by (simp add: bindA_def)
  moreover have "list_all2 P (c # cs) (r # rs)"
    using r rs by simp
  moreover have "fst (for_each (c # cs) body w) = Inr ()"
    using b rs by (simp add: bindA_def)
  ultimately show ?case by blast
qed

lemma for_each_append:
  "for_each (xs @ ys) body = bindA (for_each xs body) (\<lambda>_. for_each ys body)"
  by (induction xs) (simp_all add: bindA_returnA bindA_assoc)

lemma for_each_map: "for_each (map f xs) body = for_each xs (\<lambda>x. body (f x))"
  by (induction xs) simp_all

lemma nested_loops_product:
  "for_each xs (\<lambda>x. for_each ys (\<lambda>y. body x y)) =
   for_each (List.product xs ys) (\<lambda>(x, y). body x y)"
  by (induction xs) (simp_all add: for_each_append for_each_map)

lemma pfr_case_records:
  "pfr_case env eng temp vol w =
     (Inr (), (snd (pfr_try eng temp vol w))\<lparr>results := results w @
        [dict_set (dict_set
           (case fst (pfr_try eng temp vol w) of
              Inl e \<Rightarrow> [(''Temperature_K'', PInt temp), (''Volume_m3'', PFloat vol),
                        (''Success'', PBool False), (''Error'', PStr (str_exn e))]
            | Inr logs \<Rightarrow> logs)
           ''CaseType'' (PStr ''PFR_Sweep''))
           ''Timestamp'' (PStr (clock env (length (results w))))]\<rparr>)"
  unfolding pfr_case_def by (rule logged_case [OF keeps_pfr_try])

lemma dist_case_records:
  "dist_case env eng rr stages w =
     (Inr (), (snd (dist_try eng rr stages w))\<lparr>results := results w @
        [dict_set (dict_set
           (case fst (dist_try eng rr stages w) of
              Inl e \<Rightarrow> [(''RefluxRatio'', PFloat rr), (''Stages'', PInt stages),
                        (''Success'', PBool False), (''Error'', PStr (str_exn e))]
            | Inr logs \<Rightarrow> logs)
           ''CaseType'' (PStr ''Distillation_Sweep''))
           ''Timestamp'' (PStr (clock env (length (results w))))]\<rparr>)"
  unfolding dist_case_def by (rule logged_case [OF keeps_dist_try])



lemma pfr_case_tagged:
  "fst (pfr_case env eng temp vol w) = Inr () \<and>
   (\<exists>r. results (snd (pfr_case env eng temp vol w)) = results w @ [r] \<and>
        tagged_row (PFR_params temp vol) r)"
proof -
  obtain r w' where t: "pfr_try eng temp vol w = (r, w')"
    by (cases "pfr_try eng temp vol w")
  show ?thesis
  proof (cases r)
    case (Inl e)
    with t show ?thesis
      by (simp add: pfr_case_records dict_get_dict_set) (simp add: dict_get_def)
  next
    case (Inr l)
    with t pfr_try_returns [of eng temp vol w l w'] obtain feed prd energy success errors w2
      where x: "pfr_extract eng temp vol feed prd energy success errors w2 = (Inr l, w')"
      by auto
    from pfr_extract_logs(1,2) [OF x] t Inr show ?thesis
      by (simp add: pfr_case_records dict_get_dict_set)
  qed
qed

lemma dist_case_tagged:
  "fst (dist_case env eng rr stages w) = Inr () \<and>
   (\<exists>r. results (snd (dist_case env eng rr stages w)) = results w @ [r] \<and>
        tagged_row (Distillation_params rr stages) r)"
proof -
  obtain r w' where t: "dist_try eng rr stages w = (r, w')"
    by (cases "dist_try eng rr stages w")
  show ?thesis
  proof (cases r)
    case (Inl e)
    with t show ?thesis
      by (simp add: dist_case_records dict_get_dict_set) (simp add: dict_get_def)
  next
    case (Inr l)
    with t dist_try_returns [of eng rr stages w l w'] obtain success errors w2
      where x: "dist_extract eng rr stages success errors w2 = (Inr l, w')"
      by auto
    from dist_extract_logs(1,2) [OF x] t Inr show ?thesis
      by (simp add: dist_case_records dict_get_dict_set)
  qed
qed

lemma pfr_sweep_product:
  "pfr_sweep env eng temperatures volumes =
     for_each (List.product temperatures volumes) (\<lambda>(temp, vol). pfr_case env eng temp vol)"
  unfolding pfr_sweep_def by (rule nested_loops_product)

lemma dist_sweep_product:
  "dist_sweep env eng reflux_ratios stages_list =
     for_each (List.product reflux_ratios stages_list)
       (\<lambda>(rr, stages). dist_case env eng rr stages)"
  unfolding dist_sweep_def by (rule nested_loops_product)

lemma pfr_sweep_rows:
  "fst (pfr_sweep env eng temperatures volumes w) = Inr () \<and>
   (\<exists>rows. results (snd (pfr_sweep env eng temperatures volumes w)) = results w @ rows \<and>
      list_all2 (\<lambda>(temp, vol). tagged_row (PFR_params temp vol))
        (List.product temperatures volumes) rows)"
  unfolding pfr_sweep_product
proof (rule for_each_rows)
  fix c :: "int \<times> real" and w
  obtain temp vol where c: "c = (temp, vol)"
    by (cases c)
  show "fst ((case c of (temp, vol) \<Rightarrow> pfr_case env eng temp vol) w) = Inr () \<and>
        (\<exists>r. results (snd ((case c of (temp, vol) \<Rightarrow> pfr_case env eng temp vol) w)) =
               results w @ [r] \<and>
             (case c of (temp, vol) \<Rightarrow> tagged_row (PFR_params temp vol)) r)"
    using pfr_case_tagged [of env eng temp vol w] by (simp add: c del: tagged_row.simps)
qed

lemma dist_sweep_rows:
  "fst (dist_sweep env eng reflux_ratios stages_list w) = Inr () \<and>
   (\<exists>rows. results (snd (dist_sweep env eng reflux_ratios stages_list w)) = results w @ rows \<and>
      list_all2 (\<lambda>(rr, stages). tagged_row (Distillation_params rr stages))
        (List.product reflux_ratios stages_list) rows)"
  unfolding dist_sweep_product
proof (rule for_each_rows)
  fix c :: "real \<times> int" and w
  obtain rr stages where c: "c = (rr, stages)"
    by (cases c)
  show "fst ((case c of (rr, stages) \<Rightarrow> dist_case env eng rr stages) w) = Inr () \<and>
        (\<exists>r. results (snd ((case c of (rr, stages) \<Rightarrow> dist_case env eng rr stages) w)) =
               results w @ [r] \<and>
             (case c of (rr, stages) \<Rightarrow> tagged_row (Distillation_params rr stages)) r)"
    using dist_case_tagged [of env eng rr stages w] by (simp add: c del: tagged_row.simps)
qed

lemma product_nth_nested:
  assumes "i < length xs" "j < length ys"
  shows "List.product xs ys ! (i * length ys + j) = (xs ! i, ys ! j)"
proof -
  have "i * length ys + j < Suc i * length ys"
    using assms(2) by simp
  also have "\<dots> \<le> length xs * length ys"
    using assms(1) by (intro mult_le_mono1) simp
  finally have b: "i * length ys + j < length xs * length ys" .
  have n: "length ys \<noteq> 0"
    using assms(2) by auto
  have "(j + i * length ys) div length ys = i + j div length ys"
    by (rule div_mult_self1 [OF n])
  then have d: "(i * length ys + j) div length ys = i"
    using assms(2) by (simp add: add.commute [of "i * length ys"])
  have m: "(i * length ys + j) mod length ys = j"
    using assms(2) by (simp add: add.commute [of "i * length ys"])
  show ?thesis
    using product_nth [OF b] by (simp only: d m)
qed

lemma tagged_pfr_cases:
  "list_all2 (\<lambda>(temp, vol). tagged_row (PFR_params temp vol)) cs rows \<Longrightarrow>
   list_all2 tagged_row (map (\<lambda>(temp, vol). PFR_params temp vol) cs) rows"
  by (simp add: list_all2_map1 case_prod_unfold del: tagged_row.simps)

lemma tagged_dist_cases:
  "list_all2 (\<lambda>(rr, stages). tagged_row (Distillation_params rr stages)) cs rows \<Longrightarrow>
   list_all2 tagged_row (map (\<lambda>(rr, stages). Distillation_params rr stages) cs) rows"
  by (simp add: list_all2_map1 case_prod_unfold del: tagged_row.simps)

text \<open>The two studies one after the other, as the main program runs them.\<close>

lemma both_studies_rows:
  "fst (bindA (run_pfr_study env eng) (\<lambda>_. run_distillation_study env eng) w) = Inr () \<and>
   (\<exists>rows. results (snd (bindA (run_pfr_study env eng)
                (\<lambda>_. run_distillation_study env eng) w)) = results w @ rows \<and>
      list_all2 tagged_row
        [PFR_params 300 1, PFR_params 300 2, PFR_params 300 3,
         PFR_params 325 1, PFR_params 325 2, PFR_params 325 3,
         PFR_params 350 1, PFR_params 350 2, PFR_params 350 3,
         Distillation_params 1.5 10, Distillation_params 1.5 15, Distillation_params 1.5 20,
         Distillation_params 2 10, Distillation_params 2 15, Distillation_params 2 20,
         Distillation_params 3 10, Distillation_params 3 15, Distillation_params 3 20] rows)"
proof -
  obtain w1 where p: "run_pfr_study env eng w = (Inr (), w1)"
    using pfr_sweep_rows [of env eng "[300, 325, 350]" "[1, 2, 3]" w]
    by (cases "run_pfr_study env eng w") (simp add: run_pfr_study_def)
  from pfr_sweep_rows [of env eng "[300, 325, 350]" "[1, 2, 3]" w] p obtain rows0 where
    r0: "results w1 = results w @ rows0"
        "list_all2 (\<lambda>(temp, vol). tagged_row (PFR_params temp vol))
           (List.product [300, 325, 350] [1, 2, 3]) rows0"
    by (auto simp: run_pfr_study_def simp del: tagged_row.simps)
  from r0(1) tagged_pfr_cases [OF r0(2)] obtain rows1 where
    r1: "results w1 = results w @ rows1"
        "list_all2 tagged_row
           [PFR_params 300 1, PFR_params 300 2, PFR_params 300 3,
            PFR_params 325 1, PFR_params 325 2, PFR_params 325 3,
            PFR_params 350 1, PFR_params 350 2, PFR_params 350 3] rows1"
    by (simp del: tagged_row.simps list_all2_Cons1)
  obtain w2 where d: "run_distillation_study env eng w1 = (Inr (), w2)"
    using dist_sweep_rows [of env eng "[1.5, 2, 3]" "[10, 15, 20]" w1]
    by (cases "run_distillation_study env eng w1") (simp add: run_distillation_study_def)
  from dist_sweep_rows [of env eng "[1.5, 2, 3]" "[10, 15, 20]" w1] d obtain rows3 where
    r3: "results w2 = results w1 @ rows3"
        "list_all2 (\<lambda>(rr, stages). tagged_row (Distillation_params rr stages))
           (List.product [1.5, 2, 3] [10, 15, 20]) rows3"
    by (auto simp: run_distillation_study_def simp del: tagged_row.simps)
  from r3(1) tagged_dist_cases [OF r3(2)] obtain rows2 where
    r2: "results w2 = results w1 @ rows2"
        "list_all2 tagged_row
           [Distillation_params 1.5 10, Distillation_params 1.5 15, Distillation_params 1.5 20,
            Distillation_params 2 10, Distillation_params 2 15, Distillation_params 2 20,
            Distillation_params 3 10, Distillation_params 3 15, Distillation_params 3 20] rows2"
    by (simp del: tagged_row.simps list_all2_Cons1)
  have "list_all2 tagged_row
        ([PFR_params 300 1, PFR_params 300 2, PFR_params 300 3,
          PFR_params 325 1, PFR_params 325 2, PFR_params 325 3,
          PFR_params 350 1, PFR_params 350 2, PFR_params 350 3] @
         [Distillation_params 1.5 10, Distillation_params 1.5 15, Distillation_params 1.5 20,
          Distillation_params 2 10, Distillation_params 2 15, Distillation_params 2 20,
          Distillation_params 3 10, Distillation_params 3 15, Distillation_params 3 20])
        (rows1 @ rows2)"
    using r1(2) r2(2) by (rule list_all2_appendI)
  then have "list_all2 tagged_row
        [PFR_params 300 1, PFR_params 300 2, PFR_params 300 3,
         PFR_params 325 1, PFR_params 325 2, PFR_params 325 3,
         PFR_params 350 1, PFR_params 350 2, PFR_params 350 3,
         Distillation_params 1.5 10, Distillation_params 1.5 15, Distillation_params 1.5 20,
         Distillation_params 2 10, Distillation_params 2 15, Distillation_params 2 20,
         Distillation_params 3 10, Distillation_params 3 15, Distillation_params 3 20]
        (rows1 @ rows2)"
    by simp
  moreover have "results w2 = results w @ (rows1 @ rows2)"
    using r1(1) r2(1) by simp
  moreover have "bindA (run_pfr_study env eng) (\<lambda>_. run_distillation_study env eng) w =
      (Inr (), w2)"
    using p d by (simp add: bindA_def)
  ultimately show ?thesis
    by (metis fst_conv snd_conv)
qed








lemma first_seen_Nil: "first_seen [] = []"
  by (simp add: first_seen_def)

lemma set_first_seen: "set (first_seen xs) = set xs"
  by (simp add: first_seen_def)

lemma distinct_first_seen: "distinct (first_seen xs)"
  by (simp add: first_seen_def)

lemma first_seen_snoc:
  "first_seen (xs @ [x]) = (if x \<in> set xs then first_seen xs else first_seen xs @ [x])"
  by (simp add: first_seen_def)

lemma add_key_first_seen: "add_key (first_seen pre) k = first_seen (pre @ [k])"
  by (simp add: add_key_def first_seen_snoc set_first_seen)

lemma fold_add_key:
  "fold (\<lambda>k cs. add_key cs k) ks (first_seen pre) = first_seen (pre @ ks)"
proof (induction ks arbitrary: pre)
  case Nil
  show ?case by simp
next
  case (Cons k ks)
  have "fold (\<lambda>k cs. add_key cs k) (k # ks) (first_seen pre) =
      fold (\<lambda>k cs. add_key cs k) ks (first_seen (pre @ [k]))"
    by (simp add: add_key_first_seen)
  also have "\<dots> = first_seen ((pre @ [k]) @ ks)"
    by (rule Cons)
  finally show ?case by simp
qed

lemma fold_rows_keys:
  "fold (\<lambda>r cols. fold (\<lambda>k cs. add_key cs k) (keys r) cols) rows (first_seen pre) =
     first_seen (pre @ concat (map keys rows))"
proof (induction rows arbitrary: pre)
  case Nil
  show ?case by simp
next
  case (Cons r rows)
  have "fold (\<lambda>r cols. fold (\<lambda>k cs. add_key cs k) (keys r) cols) (r # rows) (first_seen pre) =
      fold (\<lambda>r cols. fold (\<lambda>k cs. add_key cs k) (keys r) cols) rows
        (first_seen (pre @ keys r))"
    by (simp add: fold_add_key)
  also have "\<dots> = first_seen ((pre @ keys r) @ concat (map keys rows))"
    by (rule Cons)
  finally show ?case by simp
qed

lemma columns_of_first_seen: "columns_of rows = first_seen (concat (map keys rows))"
  using fold_rows_keys [of rows "[]"] by (simp add: columns_of_def first_seen_Nil)

lemma dict_get_missing: "k \<notin> set (keys d) \<Longrightarrow> dict_get d k = None"
  by (simp add: dict_get_def keys_def map_of_eq_None_iff)

lemma data_frame_cell:
  assumes "i < length rows" "j < length (columns (DataFrame rows))"
  shows "cells (DataFrame rows) ! i ! j = dict_get (rows ! i) (columns (DataFrame rows) ! j)"
  using assms by (simp add: DataFrame_def)

lemma export_twice:
  "export_results env pd (snd (export_results env pd w)) = export_results env pd w"
  by (simp add: export_results_def Let_def split: option.splits)

lemma export_content:
  "write_error env (path_join env (script_dir env) ''results.csv'') = None \<Longrightarrow>
   files (snd (export_results env pd w)) (path_join env (script_dir env) ''results.csv'') =
     Some (to_csv pd (DataFrame (results w)))"
  by (simp add: export_results_def Let_def)

lemmas bind_defs = assign_reaction_set_def debug_bind_def reflect_assign_def
  attribute_assign_def bindA_def catchA_def returnA_def invoke_def perform_def








text \<open>The exported text, line by line, in terms of the rows.\<close>

lemma data_lines_rows:
  "data_lines pd (DataFrame rows) =
     map (\<lambda>r. csv_line pd
        (map (\<lambda>c. case dict_get r c of
                     None \<Rightarrow> []
                   | Some v \<Rightarrow> cell_text pd (map (\<lambda>r'. dict_get r' c) rows) v)
           (columns (DataFrame rows)))) rows"
proof -
  have f: "map (cell_field pd (DataFrame rows) i) [0..<length (columns_of rows)] =
      map (\<lambda>c. case dict_get (rows ! i) c of
                     None \<Rightarrow> []
                   | Some v \<Rightarrow> cell_text pd (map (\<lambda>r'. dict_get r' c) rows) v)
        (columns_of rows)" if "i < length rows" for i
  proof (rule nth_equalityI)
    show "length (map (cell_field pd (DataFrame rows) i) [0..<length (columns_of rows)]) =
        length (map (\<lambda>c. case dict_get (rows ! i) c of
                     None \<Rightarrow> []
                   | Some v \<Rightarrow> cell_text pd (map (\<lambda>r'. dict_get r' c) rows) v)
        (columns_of rows))"
      by simp
  next
    fix j
    assume "j < length (map (cell_field pd (DataFrame rows) i) [0..<length (columns_of rows)])"
    then have j: "j < length (columns_of rows)"
      by simp
    have col: "map (\<lambda>r. r ! j) (cells (DataFrame rows)) =
        map (\<lambda>r'. dict_get r' (columns_of rows ! j)) rows"
      using j by (simp add: DataFrame_def o_def)
    have cell: "cells (DataFrame rows) ! i ! j = dict_get (rows ! i) (columns_of rows ! j)"
      using that j by (simp add: DataFrame_def)
    from that j show "map (cell_field pd (DataFrame rows) i) [0..<length (columns_of rows)] ! j =
        map (\<lambda>c. case dict_get (rows ! i) c of
                     None \<Rightarrow> []
                   | Some v \<Rightarrow> cell_text pd (map (\<lambda>r'. dict_get r' c) rows) v)
        (columns_of rows) ! j"
      by (simp add: cell_field_def col cell split: option.splits)
  qed
  show ?thesis
  proof (rule nth_equalityI)
    show "length (data_lines pd (DataFrame rows)) =
        length (map (\<lambda>r. csv_line pd
          (map (\<lambda>c. case dict_get r c of
                     None \<Rightarrow> []
                   | Some v \<Rightarrow> cell_text pd (map (\<lambda>r'. dict_get r' c) rows) v)
           (columns (DataFrame rows)))) rows)"
      by (simp add: data_lines_def DataFrame_def)
  next
    fix i
    assume "i < length (data_lines pd (DataFrame rows))"
    then have i: "i < length rows"
      by (simp add: data_lines_def DataFrame_def)
    have c: "columns (DataFrame rows) = columns_of rows" "length (cells (DataFrame rows)) = length rows"
      by (simp_all add: DataFrame_def)
    show "data_lines pd (DataFrame rows) ! i =
        map (\<lambda>r. csv_line pd
          (map (\<lambda>c. case dict_get r c of
                     None \<Rightarrow> []
                   | Some v \<Rightarrow> cell_text pd (map (\<lambda>r'. dict_get r' c) rows) v)
           (columns (DataFrame rows)))) rows ! i"
      using i by (simp add: data_lines_def c f)
  qed
qed

text \<open>
  The two building blocks of the debug script's binding never raise: each returns its flag
  and leaves its calls in the log.
\<close>

lemma reflect_assign_eq:
  "reflect_assign eng pfr name i w =
     (Inr (reflect_works eng (calls w) pfr name (PInt i)),
      w\<lparr>calls := reflect_calls eng (calls w) pfr name (PInt i) @ calls w\<rparr>)"
proof (cases "get_property eng (calls w) pfr name")
  case (Inl e)
  then show ?thesis
    by (simp add: reflect_assign_def bindA_def catchA_def returnA_def invoke_def
        reflect_works_def reflect_calls_def)
next
  case (Inr has)
  then show ?thesis
    by (cases "effect eng (GetProperty pfr name # calls w) (SetValue pfr name (PInt i))")
       (simp_all add: reflect_assign_def bindA_def catchA_def returnA_def invoke_def
        perform_def reflect_works_def reflect_calls_def)
qed

lemma attribute_assign_eq:
  "attribute_assign eng pfr i w =
     (Inr (effect eng (calls w) (SetAttr pfr ''ReactionSet'' (PInt i)) = None),
      w\<lparr>calls := SetAttr pfr ''ReactionSet'' (PInt i) # calls w\<rparr>)"
  by (cases "effect eng (calls w) (SetAttr pfr ''ReactionSet'' (PInt i))")
     (simp_all add: attribute_assign_def bindA_def catchA_def returnA_def invoke_def
      perform_def)
section \<open>Properties\<close>

subsection \<open>The solve wrapper\<close>

text \<open>
  C10. Given what the engine's solve call returns, \<open>run_simulation\<close> reports success
  exactly when that is a null or an empty error list: a null becomes \<open>(True, [])\<close>, and a
  list is handed back as the errors with success iff it is empty. The call is logged.
\<close>

theorem run_simulation_reports:
  "calculate_flowsheet eng (calls w) = Inr r \<Longrightarrow>
     run_simulation eng w =
       (Inr (r = None \<or> r = Some [], case r of None \<Rightarrow> [] | Some errs \<Rightarrow> errs),
        w\<lparr>calls := CalculateFlowsheet2 # calls w\<rparr>)"
  by (cases r) (simp_all add: run_simulation_def bindA_def invoke_def returnA_def)

text \<open>On a solver that returns null, and on one that returns one error.\<close>

theorem run_simulation_reports_witness:
  "run_simulation ok_engine initial_world =
     (Inr (True, []), initial_world\<lparr>calls := [CalculateFlowsheet2]\<rparr>) \<and>
   run_simulation solver_reports_error initial_world =
     (Inr (False, [''did not converge'']), initial_world\<lparr>calls := [CalculateFlowsheet2]\<rparr>)"
  using run_simulation_reports [of ok_engine initial_world None]
    run_simulation_reports [of solver_reports_error initial_world "Some [''did not converge'']"]
  by (simp add: ok_engine_def solver_reports_error_def initial_world_def)

subsection \<open>The conversion metric\<close>

text \<open>
  C4, as stated, fails for a negative inlet flow: the guard of line 343 is \<open>in_flow > 0\<close>,
  so the code gives 0 where the formula gives 1.
\<close>

theorem conversion_negative_inlet:
  "conversion (- 1) 0 = Inr (PInt 0) \<and> ((- 1 :: real) - 0) / (- 1) = 1"
  by (simp add: conversion_def)

text \<open>
  C4, amended. For a positive inlet flow the conversion is
  \<open>(in_flow - out_flow_A) / in_flow\<close>; for an inlet flow that is zero or negative it
  is 0; and no division error ever leaves the computation.
\<close>

theorem conversion_by_guard:
  "(0 < in_flow \<longrightarrow>
      conversion in_flow out_flow_A = Inr (PFloat ((in_flow - out_flow_A) / in_flow))) \<and>
   (in_flow \<le> 0 \<longrightarrow> conversion in_flow out_flow_A = Inr (PInt 0)) \<and>
   (\<forall>e. conversion in_flow out_flow_A \<noteq> Inl e)"
  by (auto simp: conversion_def py_truediv_def)

text \<open>The two examples of the specification, and a negative inlet flow.\<close>

theorem conversion_by_guard_witness:
  "conversion 100 40 = Inr (PFloat 0.6) \<and> conversion 0 40 = Inr (PInt 0) \<and>
   conversion (- 5) 40 = Inr (PInt 0)"
  using conversion_by_guard [of 100 40] conversion_by_guard [of 0 40]
    conversion_by_guard [of "- 5" 40]
  by simp

subsection \<open>The distillate purity\<close>

text \<open>
  C9. Whenever the \<open>try\<close> body of a distillation case comes to its logging step without
  an exception, the dict it logs, and so the row recorded for the case, carries
  \<open>DistillatePurity = 0.95\<close>, whatever the engine answered to any call.
\<close>

theorem distillate_purity_constant:
  "fst (dist_try eng rr stages w) = Inr logs \<Longrightarrow>
     dict_get logs ''DistillatePurity'' = Some (PFloat 0.95) \<and>
     results (snd (dist_case env eng rr stages w)) =
       results w @ [dict_set (dict_set logs ''CaseType'' (PStr ''Distillation_Sweep''))
          ''Timestamp'' (PStr (clock env (length (results w))))] \<and>
     dict_get (last (results (snd (dist_case env eng rr stages w)))) ''DistillatePurity'' =
       Some (PFloat 0.95)"
proof -
  assume a: "fst (dist_try eng rr stages w) = Inr logs"
  then obtain w1 where t: "dist_try eng rr stages w = (Inr logs, w1)"
    by (cases "dist_try eng rr stages w") simp
  have p: "dict_get logs ''DistillatePurity'' = Some (PFloat 0.95)"
    using dist_try_returns [OF t] dist_extract_logs(3) by blast
  have r: "results (snd (dist_case env eng rr stages w)) =
       results w @ [dict_set (dict_set logs ''CaseType'' (PStr ''Distillation_Sweep''))
          ''Timestamp'' (PStr (clock env (length (results w))))]"
    unfolding dist_case_def by (simp add: logged_case [OF keeps_dist_try] a)
  show ?thesis
    using p by (simp add: r dict_get_dict_set)
qed

text \<open>A case whose solver reports an error is recorded as failed, with purity 0.95.\<close>

theorem distillate_purity_constant_witness:
  "dict_get (last (results (snd (dist_case ok_env solver_reports_error 1.5 10 initial_world))))
     ''DistillatePurity'' = Some (PFloat 0.95) \<and>
   dict_get (last (results (snd (dist_case ok_env solver_reports_error 1.5 10 initial_world))))
     ''Success'' = Some (PBool False)"
proof -
  have t: "fst (dist_try solver_reports_error 1.5 10 initial_world) =
      Inr [(''RefluxRatio'', PFloat 1.5), (''Stages'', PInt 10),
           (''DistillatePurity'', PFloat 0.95), (''CondenserDuty_kW'', PFloat 350),
           (''ReboilerDuty_kW'', PFloat 350), (''Success'', PBool False),
           (''Error'', PStr (str_list [''did not converge'']))]"
    by (simp add: run_defs solver_reports_error_def ok_engine_def)
  show ?thesis
    using distillate_purity_constant [OF t, of ok_env]
    by (simp add: dict_get_dict_set dict_get_def)
qed

subsection \<open>A metric that cannot be read\<close>

text \<open>
  C7. The reads of the flows are guarded (\<open>get_comp_flow\<close> gives 0.0 on any failure), the
  reads of the outlet temperature, the heat duty and the two column duties are not. On an
  engine that solves the case and then raises on the temperature read, the PFR case is
  recorded as failed and the conversion already computed is lost; the same happens to a
  distillation case when the condenser duty cannot be read.
\<close>

theorem unreadable_metric_fails_case:
  "fst (pfr_until_solve temperature_unreadable 300 1 initial_world) = Inr (True, []) \<and>
   results (snd (pfr_case ok_env temperature_unreadable 300 1 initial_world)) =
     [[(''Temperature_K'', PInt 300), (''Volume_m3'', PFloat 1),
       (''Success'', PBool False), (''Error'', PStr ''Property not found.''),
       (''CaseType'', PStr ''PFR_Sweep''), (''Timestamp'', PStr ''12:00:00'')]] \<and>
   fst (dist_until_solve duty_unreadable 1.5 10 initial_world) = Inr (True, []) \<and>
   results (snd (dist_case ok_env duty_unreadable 1.5 10 initial_world)) =
     [[(''RefluxRatio'', PFloat 1.5), (''Stages'', PInt 10),
       (''Success'', PBool False), (''Error'', PStr ''Property not found.''),
       (''CaseType'', PStr ''Distillation_Sweep''), (''Timestamp'', PStr ''12:00:00'')]]"
  by (simp add: run_defs pfr_until_solve_def temperature_unreadable_def duty_unreadable_def
      ok_engine_def ok_env_def)

subsection \<open>The case generator\<close>

text \<open>
  C2. The two nested loops of a study run the case body on the cartesian product of the
  two axes, in the order of \<open>List.product\<close>: the first axis is the outer loop. That
  list has as many combinations as the product of the axis lengths, the combination at
  position \<open>i * length volumes + j\<close> is the \<open>i\<close>-th value of the first axis with the
  \<open>j\<close>-th of the second, and the combinations are distinct when the values of each
  axis are. Each combination leaves one row tagged with its case type and parameter
  values, in that order. For the axes of the script, the PFR study followed by the
  distillation study adds 18 rows: the nine reactor cases, then the nine column cases,
  each with its tags, whatever the engine does.
\<close>

theorem case_generator_nested_product:
  "pfr_sweep env eng temperatures volumes =
     for_each (List.product temperatures volumes) (\<lambda>(temp, vol). pfr_case env eng temp vol) \<and>
   dist_sweep env eng reflux_ratios stages_list =
     for_each (List.product reflux_ratios stages_list)
       (\<lambda>(rr, stages). dist_case env eng rr stages) \<and>
   length (List.product temperatures volumes) = length temperatures * length volumes \<and>
   (distinct temperatures \<and> distinct volumes \<longrightarrow>
      distinct (List.product temperatures volumes)) \<and>
   (\<forall>i < length temperatures. \<forall>j < length volumes.
      List.product temperatures volumes ! (i * length volumes + j) =
        (temperatures ! i, volumes ! j)) \<and>
   (\<exists>rows. results (snd (pfr_sweep env eng temperatures volumes w)) = results w @ rows \<and>
      list_all2 (\<lambda>(temp, vol). tagged_row (PFR_params temp vol))
        (List.product temperatures volumes) rows) \<and>
   (\<exists>rows. results (snd (dist_sweep env eng reflux_ratios stages_list w)) = results w @ rows \<and>
      list_all2 (\<lambda>(rr, stages). tagged_row (Distillation_params rr stages))
        (List.product reflux_ratios stages_list) rows) \<and>
   (\<exists>rows. results (snd (bindA (run_pfr_study env eng)
                (\<lambda>_. run_distillation_study env eng) w)) = results w @ rows \<and>
      length rows = 18 \<and>
      list_all2 tagged_row
        [PFR_params 300 1, PFR_params 300 2, PFR_params 300 3,
         PFR_params 325 1, PFR_params 325 2, PFR_params 325 3,
         PFR_params 350 1, PFR_params 350 2, PFR_params 350 3,
         Distillation_params 1.5 10, Distillation_params 1.5 15, Distillation_params 1.5 20,
         Distillation_params 2 10, Distillation_params 2 15, Distillation_params 2 20,
         Distillation_params 3 10, Distillation_params 3 15, Distillation_params 3 20] rows)"
proof -
  from both_studies_rows [of env eng w] obtain rows where
    r: "results (snd (bindA (run_pfr_study env eng)
                (\<lambda>_. run_distillation_study env eng) w)) = results w @ rows"
       "list_all2 tagged_row
        [PFR_params 300 1, PFR_params 300 2, PFR_params 300 3,
         PFR_params 325 1, PFR_params 325 2, PFR_params 325 3,
         PFR_params 350 1, PFR_params 350 2, PFR_params 350 3,
         Distillation_params 1.5 10, Distillation_params 1.5 15, Distillation_params 1.5 20,
         Distillation_params 2 10, Distillation_params 2 15, Distillation_params 2 20,
         Distillation_params 3 10, Distillation_params 3 15, Distillation_params 3 20] rows"
    by blast
  from r(2) have "length rows = 18"
    by (simp add: list_all2_lengthD [symmetric] del: list_all2_Cons1 tagged_row.simps)
  with r have e: "\<exists>rows. results (snd (bindA (run_pfr_study env eng)
                (\<lambda>_. run_distillation_study env eng) w)) = results w @ rows \<and>
      length rows = 18 \<and>
      list_all2 tagged_row
        [PFR_params 300 1, PFR_params 300 2, PFR_params 300 3,
         PFR_params 325 1, PFR_params 325 2, PFR_params 325 3,
         PFR_params 350 1, PFR_params 350 2, PFR_params 350 3,
         Distillation_params 1.5 10, Distillation_params 1.5 15, Distillation_params 1.5 20,
         Distillation_params 2 10, Distillation_params 2 15, Distillation_params 2 20,
         Distillation_params 3 10, Distillation_params 3 15, Distillation_params 3 20] rows"
    by blast
  have n: "\<forall>i < length temperatures. \<forall>j < length volumes.
      List.product temperatures volumes ! (i * length volumes + j) =
        (temperatures ! i, volumes ! j)"
    by (simp add: product_nth_nested)
  have d: "distinct temperatures \<and> distinct volumes \<longrightarrow>
      distinct (List.product temperatures volumes)"
    by (simp add: distinct_product)
  from e n d pfr_sweep_product [of env eng temperatures volumes]
    dist_sweep_product [of env eng reflux_ratios stages_list]
    length_product [of temperatures volumes]
    pfr_sweep_rows [of env eng temperatures volumes w]
    dist_sweep_rows [of env eng reflux_ratios stages_list w]
  show ?thesis
    by blast
qed

text \<open>The axes of the reactor study, and both studies on the engine on which every call raises.\<close>

theorem case_generator_nested_product_witness:
  "List.product [300, 325, 350 :: int] [1, 2, 3 :: real] ! 5 = (325, 3) \<and>
   List.product [300, 325, 350 :: int] [1, 2, 3 :: real] =
     [(300, 1), (300, 2), (300, 3), (325, 1), (325, 2), (325, 3),
      (350, 1), (350, 2), (350, 3)] \<and>
   distinct (List.product [300, 325, 350 :: int] [1, 2, 3 :: real]) \<and>
   length (results (snd (bindA (run_pfr_study ok_env hostile_engine)
     (\<lambda>_. run_distillation_study ok_env hostile_engine) initial_world))) = 18"
proof -
  note T = case_generator_nested_product [where temperatures = "[300, 325, 350]"
      and volumes = "[1, 2, 3]" and env = ok_env and eng = hostile_engine
      and w = initial_world and reflux_ratios = "[1.5, 2, 3]" and stages_list = "[10, 15, 20]"]
  from T have "\<forall>i < length [300, 325, 350 :: int]. \<forall>j < length [1, 2, 3 :: real].
      List.product [300, 325, 350 :: int] [1, 2, 3 :: real] ! (i * length [1, 2, 3 :: real] + j) =
        ([300, 325, 350] ! i, [1, 2, 3] ! j)"
    by blast
  from this [rule_format, of 1 2]
  have a: "List.product [300, 325, 350 :: int] [1, 2, 3 :: real] ! 5 = (325, 3)"
    by simp
  from T have "distinct [300, 325, 350 :: int] \<and> distinct [1, 2, 3 :: real] \<longrightarrow>
      distinct (List.product [300, 325, 350 :: int] [1, 2, 3 :: real])"
    by blast
  then have b: "distinct (List.product [300, 325, 350 :: int] [1, 2, 3 :: real])"
    by simp
  from T obtain rows where
    "results (snd (bindA (run_pfr_study ok_env hostile_engine)
       (\<lambda>_. run_distillation_study ok_env hostile_engine) initial_world)) =
     results initial_world @ rows" "length rows = 18"
    by blast
  then have c: "length (results (snd (bindA (run_pfr_study ok_env hostile_engine)
     (\<lambda>_. run_distillation_study ok_env hostile_engine) initial_world))) = 18"
    by (simp add: initial_world_def)
  have e: "List.product [300, 325, 350 :: int] [1, 2, 3 :: real] =
     [(300, 1), (300, 2), (300, 3), (325, 1), (325, 2), (325, 3),
      (350, 1), (350, 2), (350, 3)]"
    by simp
  from a b c e show ?thesis
    by blast
qed

subsection \<open>Fatal start-up errors and failures inside a case\<close>



subsection \<open>One row for every case\<close>





subsection \<open>A binding that fails\<close>




subsection \<open>The tabular export\<close>

text \<open>
  C5, as stated, fails for the empty row set. Every column of the export comes from the
  keys of the rows: a recorded row brings \<open>CaseType\<close>, \<open>Timestamp\<close>, \<open>Success\<close> and
  \<open>Error\<close> with it, as the row of a failed reactor case shows, and the export of no rows
  has none of them. Its header is empty.
\<close>

theorem empty_export_has_no_columns:
  "columns (DataFrame (results (snd (pfr_case ok_env hostile_engine 300 1 initial_world)))) =
     [''Temperature_K'', ''Volume_m3'', ''Success'', ''Error'', ''CaseType'', ''Timestamp''] \<and>
   columns (DataFrame []) = [] \<and>
   ''CaseType'' \<notin> set (columns (DataFrame [])) \<and>
   ''Timestamp'' \<notin> set (columns (DataFrame [])) \<and>
   to_csv plain_pandas (DataFrame []) = [CHR 0x0A]"
  by (simp add: run_defs hostile_engine_def ok_env_def DataFrame_def columns_of_def add_key_def
      keys_def to_csv_def data_lines_def csv_line_def plain_pandas_def)

text \<open>
  C5, amended. The columns of the exported table are the keys of the recorded rows, each
  once, in the order in which they are first seen, so their set is the union of the keys of
  all rows. The exported text is the header line followed by one line for each row, in the
  order of the rows, with one field for each column: the row's value for that key, and the
  empty field where the row lacks the key. The export of no rows has no column at all, not
  even \<open>CaseType\<close> or \<open>Timestamp\<close>, and no data line: it is the line terminator of the
  empty header. Exporting a second time leaves the world as the first export left it, and
  the bytes written are a function of the rows alone.
\<close>

theorem export_columns_blank_idempotent:
  "columns (DataFrame rows) = first_seen (concat (map keys rows)) \<and>
   set (columns (DataFrame rows)) = (\<Union>r \<in> set rows. set (keys r)) \<and>
   distinct (columns (DataFrame rows)) \<and>
   length (data_lines pd (DataFrame rows)) = length rows \<and>
   (\<forall>i < length rows. \<forall>j < length (columns (DataFrame rows)).
      cells (DataFrame rows) ! i ! j = dict_get (rows ! i) (columns (DataFrame rows) ! j) \<and>
      (columns (DataFrame rows) ! j \<notin> set (keys (rows ! i)) \<longrightarrow>
         cell_field pd (DataFrame rows) i j = [])) \<and>
   to_csv pd (DataFrame rows) =
     csv_line pd (map (name_text pd) (columns (DataFrame rows))) @
     concat (map (\<lambda>r. csv_line pd
        (map (\<lambda>c. case dict_get r c of
                     None \<Rightarrow> []
                   | Some v \<Rightarrow> cell_text pd (map (\<lambda>r'. dict_get r' c) rows) v)
           (columns (DataFrame rows)))) rows) \<and>
   columns (DataFrame []) = [] \<and>
   data_lines pd (DataFrame []) = [] \<and>
   to_csv pd (DataFrame []) = lineterminator pd \<and>
   export_results env pd (snd (export_results env pd w)) = export_results env pd w \<and>
   (write_error env (path_join env (script_dir env) ''results.csv'') = None \<longrightarrow>
      files (snd (export_results env pd w)) (path_join env (script_dir env) ''results.csv'') =
        Some (to_csv pd (DataFrame (results w))))"
proof -
  have c: "columns (DataFrame rows) = first_seen (concat (map keys rows))"
    by (simp add: DataFrame_def columns_of_first_seen)
  have s: "set (columns (DataFrame rows)) = (\<Union>r \<in> set rows. set (keys r))"
    by (simp add: c set_first_seen)
  have d: "distinct (columns (DataFrame rows))"
    by (simp add: c distinct_first_seen)
  have l: "length (data_lines pd (DataFrame rows)) = length rows"
    by (simp add: data_lines_def DataFrame_def)
  have m: "\<forall>i < length rows. \<forall>j < length (columns (DataFrame rows)).
      cells (DataFrame rows) ! i ! j = dict_get (rows ! i) (columns (DataFrame rows) ! j) \<and>
      (columns (DataFrame rows) ! j \<notin> set (keys (rows ! i)) \<longrightarrow>
         cell_field pd (DataFrame rows) i j = [])"
    by (simp add: data_frame_cell cell_field_def dict_get_missing)
  have t: "to_csv pd (DataFrame rows) =
     csv_line pd (map (name_text pd) (columns (DataFrame rows))) @
     concat (map (\<lambda>r. csv_line pd
        (map (\<lambda>c. case dict_get r c of
                     None \<Rightarrow> []
                   | Some v \<Rightarrow> cell_text pd (map (\<lambda>r'. dict_get r' c) rows) v)
           (columns (DataFrame rows)))) rows)"
    unfolding to_csv_def data_lines_rows ..
  have e: "columns (DataFrame []) = []" "data_lines pd (DataFrame []) = []"
    "to_csv pd (DataFrame []) = lineterminator pd"
    by (simp_all add: DataFrame_def columns_of_def data_lines_def to_csv_def csv_line_def)
  from c s d l m t e export_twice [of env pd w] export_content [of env pd w]
  show ?thesis
    by (intro conjI impI) simp_all
qed

text \<open>A failed reactor row and a column row; and the export of no rows.\<close>

theorem export_columns_blank_idempotent_witness:
  "columns (DataFrame
     [[(''Temperature_K'', PInt 300), (''Success'', PBool False)],
      [(''RefluxRatio'', PFloat 1.5), (''Success'', PBool True)]]) =
     [''Temperature_K'', ''Success'', ''RefluxRatio''] \<and>
   cell_field plain_pandas (DataFrame
     [[(''Temperature_K'', PInt 300), (''Success'', PBool False)],
      [(''RefluxRatio'', PFloat 1.5), (''Success'', PBool True)]]) 0 2 = [] \<and>
   to_csv plain_pandas (DataFrame
     [[(''Temperature_K'', PInt 300), (''Success'', PBool False)],
      [(''RefluxRatio'', PFloat 1.5), (''Success'', PBool True)]]) =
     ''Temperature_K,Success,RefluxRatio'' @ [CHR 0x0A] @
     ''#,False,'' @ [CHR 0x0A] @ '',True,#'' @ [CHR 0x0A] \<and>
   to_csv plain_pandas (DataFrame []) = [CHR 0x0A] \<and>
   files (snd (export_results ok_env plain_pandas initial_world))
     (''S'' @ [CHR 0x5C] @ ''results.csv'') = Some [CHR 0x0A]"
proof -
  let ?rows = "[[(''Temperature_K'', PInt 300), (''Success'', PBool False)],
      [(''RefluxRatio'', PFloat 1.5), (''Success'', PBool True)]]"
  note T = export_columns_blank_idempotent [where rows = ?rows and pd = plain_pandas
      and env = ok_env and w = initial_world]
  have k: "first_seen (concat (map keys ?rows)) = [''Temperature_K'', ''Success'', ''RefluxRatio'']"
    by (simp add: first_seen_def keys_def)
  from T k have a: "columns (DataFrame ?rows) = [''Temperature_K'', ''Success'', ''RefluxRatio'']"
    by simp
  from T have "\<forall>i < length ?rows. \<forall>j < length (columns (DataFrame ?rows)).
      cells (DataFrame ?rows) ! i ! j = dict_get (?rows ! i) (columns (DataFrame ?rows) ! j) \<and>
      (columns (DataFrame ?rows) ! j \<notin> set (keys (?rows ! i)) \<longrightarrow>
         cell_field plain_pandas (DataFrame ?rows) i j = [])"
    by blast
  from this [rule_format, of 0 2] a
  have b: "cell_field plain_pandas (DataFrame ?rows) 0 2 = []"
    by (simp add: keys_def)
  from T have "to_csv plain_pandas (DataFrame ?rows) =
     csv_line plain_pandas (map (name_text plain_pandas) (columns (DataFrame ?rows))) @
     concat (map (\<lambda>r. csv_line plain_pandas
        (map (\<lambda>c. case dict_get r c of
                     None \<Rightarrow> []
                   | Some v \<Rightarrow> cell_text plain_pandas (map (\<lambda>r'. dict_get r' c) ?rows) v)
           (columns (DataFrame ?rows)))) ?rows)"
    by blast
  with a have c: "to_csv plain_pandas (DataFrame ?rows) =
     ''Temperature_K,Success,RefluxRatio'' @ [CHR 0x0A] @
     ''#,False,'' @ [CHR 0x0A] @ '',True,#'' @ [CHR 0x0A]"
    by (simp add: csv_line_def dict_get_def plain_pandas_def)
  from T have d: "to_csv plain_pandas (DataFrame []) = [CHR 0x0A]"
    by (simp add: plain_pandas_def)
  have x: "write_error ok_env (path_join ok_env (script_dir ok_env) ''results.csv'') = None"
    by (simp add: ok_env_def)
  with T have "files (snd (export_results ok_env plain_pandas initial_world))
      (path_join ok_env (script_dir ok_env) ''results.csv'') =
    Some (to_csv plain_pandas (DataFrame (results initial_world)))"
    by blast
  with d have e: "files (snd (export_results ok_env plain_pandas initial_world))
     (''S'' @ [CHR 0x5C] @ ''results.csv'') = Some [CHR 0x0A]"
    by (simp add: ok_env_def initial_world_def)
  from a b c d e show ?thesis
    by blast
qed

subsection \<open>The order of the binding strategies\<close>

text \<open>
  C1, as stated, fails. Take a reactor whose type has the properties \<open>ReactionSet\<close> and
  \<open>ReactionSetID\<close> and not \<open>Reaction Set\<close>, so that strategies 2 and 3 both apply.
  The binding step of the debug script writes the index through \<open>ReactionSet\<close>
  (strategy 2); the binding step of the screening script, on the same reactor, writes the
  ID through \<open>ReactionSetID\<close> (strategy 3) and never touches \<open>ReactionSet\<close>.
\<close>

theorem unit_2_3_gets_strategy_3:
  "debug_assign_reaction_set unit_2_3 ''PFR-1'' ''Default Set'' initial_world =
     (Inr True,
      initial_world\<lparr>calls :=
        [SetValue ''PFR-1'' ''ReactionSet'' (PInt 0),
         GetProperty ''PFR-1'' ''ReactionSet'',
         GetProperty ''PFR-1'' ''Reaction Set'',
         ReactionSets]\<rparr>) \<and>
   assign_reaction_set unit_2_3 ''PFR-1'' (Some \<lparr>ID = ''set-0'', Name = ''Default Set''\<rparr>)
       initial_world =
     (Inr (),
      initial_world\<lparr>calls :=
        [SetValue ''PFR-1'' ''ReactionSetID'' (PStr ''set-0''),
         GetProperty ''PFR-1'' ''ReactionSetID'']\<rparr>)"
  by (simp add: debug_assign_reaction_set_def liftE_def bind_defs unit_2_3_def ok_engine_def
      initial_world_def)

text \<open>
  C1, amended. The two scripts bind in two different orders, and neither has all four
  strategies. The screening script looks \<open>ReactionSetID\<close> up first: when the type has
  it, the ID is written through it; when the type lacks it, the ID is written with
  \<open>SetPropertyValue\<close> under the name \<open>Reaction Set\<close>; when the lookup raises, nothing
  is written; and in no case is anything else tried. The debug script, when the index of
  the set was not found, tries nothing. For an index that was found it tries the indexed
  property \<open>Reaction Set\<close>, then the indexed property \<open>ReactionSet\<close>, then assignment
  to the attribute \<open>ReactionSet\<close>, and stops at the first that works: an attempt through
  a property works when the lookup finds the property and the write returns, and the
  script goes on to the next strategy when the property is missing, when the lookup
  raises and when the write raises. The log holds the calls of exactly the strategies
  that were tried, and the flag is false only when the attribute assignment, tried last,
  raises as well.
\<close>

theorem binding_orders_of_the_scripts:
  "assign_reaction_set eng pfr (Some s) w =
     (Inr (),
      w\<lparr>calls :=
        (case get_property eng (calls w) pfr ''ReactionSetID'' of
           Inl e \<Rightarrow> []
         | Inr has \<Rightarrow>
             [if has then SetValue pfr ''ReactionSetID'' (PStr (ID s))
              else SetPropertyValue pfr ''Reaction Set'' (PStr (ID s))]) @
        GetProperty pfr ''ReactionSetID'' # calls w\<rparr>) \<and>
   (i < 0 \<longrightarrow> debug_bind eng pfr i w = (Inr False, w)) \<and>
   (0 \<le> i \<longrightarrow>
      (let h1 = reflect_calls eng (calls w) pfr ''Reaction Set'' (PInt i) @ calls w;
           h2 = reflect_calls eng h1 pfr ''ReactionSet'' (PInt i) @ h1
       in debug_bind eng pfr i w =
            (if reflect_works eng (calls w) pfr ''Reaction Set'' (PInt i)
             then (Inr True, w\<lparr>calls := h1\<rparr>)
             else if reflect_works eng h1 pfr ''ReactionSet'' (PInt i)
             then (Inr True, w\<lparr>calls := h2\<rparr>)
             else (Inr (effect eng h2 (SetAttr pfr ''ReactionSet'' (PInt i)) = None),
                   w\<lparr>calls := SetAttr pfr ''ReactionSet'' (PInt i) # h2\<rparr>))))"
proof -
  have a: "assign_reaction_set eng pfr (Some s) w =
     (Inr (),
      w\<lparr>calls :=
        (case get_property eng (calls w) pfr ''ReactionSetID'' of
           Inl e \<Rightarrow> []
         | Inr has \<Rightarrow>
             [if has then SetValue pfr ''ReactionSetID'' (PStr (ID s))
              else SetPropertyValue pfr ''Reaction Set'' (PStr (ID s))]) @
        GetProperty pfr ''ReactionSetID'' # calls w\<rparr>)"
    by (simp add: bind_defs split: sum.splits option.splits)
  have b: "i < 0 \<longrightarrow> debug_bind eng pfr i w = (Inr False, w)"
    by (simp add: debug_bind_def returnA_def)
  have c: "0 \<le> i \<longrightarrow>
      (let h1 = reflect_calls eng (calls w) pfr ''Reaction Set'' (PInt i) @ calls w;
           h2 = reflect_calls eng h1 pfr ''ReactionSet'' (PInt i) @ h1
       in debug_bind eng pfr i w =
            (if reflect_works eng (calls w) pfr ''Reaction Set'' (PInt i)
             then (Inr True, w\<lparr>calls := h1\<rparr>)
             else if reflect_works eng h1 pfr ''ReactionSet'' (PInt i)
             then (Inr True, w\<lparr>calls := h2\<rparr>)
             else (Inr (effect eng h2 (SetAttr pfr ''ReactionSet'' (PInt i)) = None),
                   w\<lparr>calls := SetAttr pfr ''ReactionSet'' (PInt i) # h2\<rparr>)))"
    by (simp add: debug_bind_def bindA_def returnA_def reflect_assign_eq attribute_assign_eq
        Let_def)
  from a b c show ?thesis
    by (intro conjI)
qed

text \<open>
  The debug script on six reactors: one that has \<open>Reaction Set\<close>; one that has
  \<open>ReactionSet\<close> only; one where the write through \<open>Reaction Set\<close> raises; one where
  the lookup of \<open>Reaction Set\<close> raises; one without any of the properties; and one where
  the attribute assignment raises as well. Then an index that was not found, and the
  fallback of the screening script.
\<close>

theorem binding_orders_of_the_scripts_witness:
  "debug_bind unit_1 ''PFR-1'' 0 initial_world =
     (Inr True,
      initial_world\<lparr>calls :=
        [SetValue ''PFR-1'' ''Reaction Set'' (PInt 0),
         GetProperty ''PFR-1'' ''Reaction Set'']\<rparr>) \<and>
   debug_bind unit_2_3 ''PFR-1'' 0 initial_world =
     (Inr True,
      initial_world\<lparr>calls :=
        [SetValue ''PFR-1'' ''ReactionSet'' (PInt 0),
         GetProperty ''PFR-1'' ''ReactionSet'',
         GetProperty ''PFR-1'' ''Reaction Set'']\<rparr>) \<and>
   debug_bind unit_1_stuck ''PFR-1'' 0 initial_world =
     (Inr True,
      initial_world\<lparr>calls :=
        [SetValue ''PFR-1'' ''ReactionSet'' (PInt 0),
         GetProperty ''PFR-1'' ''ReactionSet'',
         SetValue ''PFR-1'' ''Reaction Set'' (PInt 0),
         GetProperty ''PFR-1'' ''Reaction Set'']\<rparr>) \<and>
   debug_bind unit_lookup_raises ''PFR-1'' 0 initial_world =
     (Inr True,
      initial_world\<lparr>calls :=
        [SetValue ''PFR-1'' ''ReactionSet'' (PInt 0),
         GetProperty ''PFR-1'' ''ReactionSet'',
         GetProperty ''PFR-1'' ''Reaction Set'']\<rparr>) \<and>
   debug_bind unit_bare ''PFR-1'' 0 initial_world =
     (Inr True,
      initial_world\<lparr>calls :=
        [SetAttr ''PFR-1'' ''ReactionSet'' (PInt 0),
         GetProperty ''PFR-1'' ''ReactionSet'',
         GetProperty ''PFR-1'' ''Reaction Set'']\<rparr>) \<and>
   debug_bind unit_closed ''PFR-1'' 0 initial_world =
     (Inr False,
      initial_world\<lparr>calls :=
        [SetAttr ''PFR-1'' ''ReactionSet'' (PInt 0),
         GetProperty ''PFR-1'' ''ReactionSet'',
         GetProperty ''PFR-1'' ''Reaction Set'']\<rparr>) \<and>
   debug_bind ok_engine ''PFR-1'' (- 1) initial_world = (Inr False, initial_world) \<and>
   assign_reaction_set unit_bare ''PFR-1'' (Some \<lparr>ID = ''set-0'', Name = ''Default Set''\<rparr>)
       initial_world =
     (Inr (),
      initial_world\<lparr>calls :=
        [SetPropertyValue ''PFR-1'' ''Reaction Set'' (PStr ''set-0''),
         GetProperty ''PFR-1'' ''ReactionSetID'']\<rparr>)"
proof -
  from binding_orders_of_the_scripts [where eng = unit_1 and pfr = "''PFR-1''" and i = 0
      and w = initial_world and s = "\<lparr>ID = ''set-0'', Name = ''Default Set''\<rparr>"]
  have c0: "debug_bind unit_1 ''PFR-1'' 0 initial_world =
        (Inr True,
         initial_world\<lparr>calls :=
           [SetValue ''PFR-1'' ''Reaction Set'' (PInt 0),
            GetProperty ''PFR-1'' ''Reaction Set'']\<rparr>)"
    by (simp add: reflect_works_def reflect_calls_def initial_world_def unit_1_def ok_engine_def)
  from binding_orders_of_the_scripts [where eng = unit_2_3 and pfr = "''PFR-1''" and i = 0
      and w = initial_world and s = "\<lparr>ID = ''set-0'', Name = ''Default Set''\<rparr>"]
  have c1: "debug_bind unit_2_3 ''PFR-1'' 0 initial_world =
        (Inr True,
         initial_world\<lparr>calls :=
           [SetValue ''PFR-1'' ''ReactionSet'' (PInt 0),
            GetProperty ''PFR-1'' ''ReactionSet'',
            GetProperty ''PFR-1'' ''Reaction Set'']\<rparr>)"
    by (simp add: reflect_works_def reflect_calls_def initial_world_def unit_2_3_def ok_engine_def)
  from binding_orders_of_the_scripts [where eng = unit_1_stuck and pfr = "''PFR-1''" and i = 0
      and w = initial_world and s = "\<lparr>ID = ''set-0'', Name = ''Default Set''\<rparr>"]
  have c2: "debug_bind unit_1_stuck ''PFR-1'' 0 initial_world =
        (Inr True,
         initial_world\<lparr>calls :=
           [SetValue ''PFR-1'' ''ReactionSet'' (PInt 0),
            GetProperty ''PFR-1'' ''ReactionSet'',
            SetValue ''PFR-1'' ''Reaction Set'' (PInt 0),
            GetProperty ''PFR-1'' ''Reaction Set'']\<rparr>)"
    by (simp add: reflect_works_def reflect_calls_def initial_world_def unit_1_stuck_def ok_engine_def)
  from binding_orders_of_the_scripts [where eng = unit_lookup_raises and pfr = "''PFR-1''" and i = 0
      and w = initial_world and s = "\<lparr>ID = ''set-0'', Name = ''Default Set''\<rparr>"]
  have c3: "debug_bind unit_lookup_raises ''PFR-1'' 0 initial_world =
        (Inr True,
         initial_world\<lparr>calls :=
           [SetValue ''PFR-1'' ''ReactionSet'' (PInt 0),
            GetProperty ''PFR-1'' ''ReactionSet'',
            GetProperty ''PFR-1'' ''Reaction Set'']\<rparr>)"
    by (simp add: reflect_works_def reflect_calls_def initial_world_def unit_lookup_raises_def ok_engine_def)
  from binding_orders_of_the_scripts [where eng = unit_bare and pfr = "''PFR-1''" and i = 0
      and w = initial_world and s = "\<lparr>ID = ''set-0'', Name = ''Default Set''\<rparr>"]
  have c4: "debug_bind unit_bare ''PFR-1'' 0 initial_world =
        (Inr True,
         initial_world\<lparr>calls :=
           [SetAttr ''PFR-1'' ''ReactionSet'' (PInt 0),
            GetProperty ''PFR-1'' ''ReactionSet'',
            GetProperty ''PFR-1'' ''Reaction Set'']\<rparr>)"
    by (simp add: reflect_works_def reflect_calls_def initial_world_def unit_bare_def ok_engine_def)
  from binding_orders_of_the_scripts [where eng = unit_closed and pfr = "''PFR-1''" and i = 0
      and w = initial_world and s = "\<lparr>ID = ''set-0'', Name = ''Default Set''\<rparr>"]
  have c5: "debug_bind unit_closed ''PFR-1'' 0 initial_world =
        (Inr False,
         initial_world\<lparr>calls :=
           [SetAttr ''PFR-1'' ''ReactionSet'' (PInt 0),
            GetProperty ''PFR-1'' ''ReactionSet'',
            GetProperty ''PFR-1'' ''Reaction Set'']\<rparr>)"
    by (simp add: reflect_works_def reflect_calls_def initial_world_def unit_closed_def unit_bare_def ok_engine_def)
  from binding_orders_of_the_scripts [where eng = ok_engine and pfr = "''PFR-1''" and i = "- 1"
      and w = initial_world and s = "\<lparr>ID = ''set-0'', Name = ''Default Set''\<rparr>"]
  have n: "debug_bind ok_engine ''PFR-1'' (- 1) initial_world = (Inr False, initial_world)"
    by simp
  from binding_orders_of_the_scripts [where eng = unit_bare and pfr = "''PFR-1''" and i = 0
      and w = initial_world and s = "\<lparr>ID = ''set-0'', Name = ''Default Set''\<rparr>"]
  have f: "assign_reaction_set unit_bare ''PFR-1''
       (Some \<lparr>ID = ''set-0'', Name = ''Default Set''\<rparr>) initial_world =
     (Inr (),
      initial_world\<lparr>calls :=
        [SetPropertyValue ''PFR-1'' ''Reaction Set'' (PStr ''set-0''),
         GetProperty ''PFR-1'' ''ReactionSetID'']\<rparr>)"
    by (simp add: initial_world_def unit_bare_def ok_engine_def)
  from c0 c1 c2 c3 c4 c5 n f show ?thesis
    by blast
qed
end
